theory Spec2Isabelle
  imports Main
begin

section \<open>The controller manager's entry point (main.go)\<close>

text \<open>
  The file main.go declares fifteen package-level variables for its options, registers one
  command-line flag for each of them (\<open>initFlags\<close>) and, in \<open>main\<close>, builds a controller-runtime
  manager from them, registers either two reconcilers or two webhooks, adds two health
  checks and starts the manager. Every step that can fail is followed by
  \<open>setupLog.Error\<close> and \<open>os.Exit(1)\<close>.

  The embedding makes the calls to the libraries explicit: \<open>main\<close> is a function of the
  values of the variables after flag parsing and of an environment that says what every
  library call returns. Its result is the sequence of calls and log lines the process makes
  and its exit status.
\<close>

subsection \<open>Values\<close>

text \<open>
  \<open>time.Duration\<close> is an int64 count of nanoseconds. No arithmetic is done on durations
  beyond the constant defaults, so they are integers here. Go's \<open>int\<close> (the concurrency
  limits and the port) is an integer as well: the values are only compared with 0 and
  passed on.
\<close>

type_synonym duration = int

definition Second :: duration where
  "Second = 1000000000"

definition Minute :: duration where
  "Minute = 60 * Second"

text \<open>
  Modelled from the spec: the constant \<open>reconciler.DefaultLoopTimeout\<close> of the package
  \<open>util/reconciler\<close>, which is not among the sources. The specification's table of
  options gives the default of the reconcile timeout as 90 minutes.
\<close>

definition DefaultLoopTimeout :: duration where
  "DefaultLoopTimeout = 90 * Minute"

type_synonym err = string
  \<comment> \<open>a non-nil Go \<open>error\<close>, identified by its message; \<open>None\<close> of \<open>err option\<close> is nil\<close>

type_synonym ctx = nat
  \<comment> \<open>the identity of a \<open>context.Context\<close>\<close>

type_synonym rest_config = string
  \<comment> \<open>the \<open>*rest.Config\<close> that \<open>ctrl.GetConfigOrDie\<close> returns\<close>

subsection \<open>The package-level variables and their flags\<close>

record flags =
  enableLeaderElection :: bool
  metricsAddr :: string
  leaderElectionNamespace :: string
  watchNamespace :: string
  profilerAddress :: string
  healthAddr :: string
  watchFilterValue :: string
  gcpClusterConcurrency :: int
  gcpMachineConcurrency :: int
  webhookPort :: int
  reconcileTimeout :: duration
  syncPeriod :: duration
  leaderElectionLeaseDuration :: duration
  leaderElectionRenewDeadline :: duration
  leaderElectionRetryPeriod :: duration

text \<open>
  \<open>initFlags\<close> binds every variable to a flag and stores the flag's default in it.
  The record below is the state of the variables after \<open>initFlags\<close>, in the order of
  the calls in the source.
\<close>

definition initFlags :: flags where
  "initFlags =
     \<lparr> enableLeaderElection = False,
       metricsAddr = '':8080'',
       leaderElectionNamespace = '''',
       watchNamespace = '''',
       profilerAddress = '''',
       healthAddr = '':9440'',
       watchFilterValue = '''',
       gcpClusterConcurrency = 10,
       gcpMachineConcurrency = 10,
       webhookPort = 9443,
       reconcileTimeout = DefaultLoopTimeout,
       syncPeriod = 10 * Minute,
       leaderElectionLeaseDuration = 15 * Second,
       leaderElectionRenewDeadline = 10 * Second,
       leaderElectionRetryPeriod = 2 * Second \<rparr>"

text \<open>
  A parsed command-line argument is a flag name with a typed value. \<open>set_flag\<close> is the
  assignment that \<open>pflag.Parse\<close> makes for one argument: the name selects the variable
  that \<open>initFlags\<close> bound to it. A name that \<open>initFlags\<close> did not register, or a
  value of the wrong type, is \<open>None\<close>: it is not an assignment to one of these variables.
\<close>

definition flag_names :: "string list" where
  \<comment> \<open>the names \<open>initFlags\<close> registers, in the order of its calls\<close>
  "flag_names =
     [''metrics-addr'', ''leader-elect'', ''leader-elect-lease-duration'',
      ''leader-elect-renew-deadline'', ''leader-elect-retry-period'', ''namespace'',
      ''leader-election-namespace'', ''profiler-address'', ''watch-filter'',
      ''gcpcluster-concurrency'', ''gcpmachine-concurrency'', ''sync-period'',
      ''webhook-port'', ''health-addr'', ''reconcile-timeout'']"

datatype flag_value = BoolV bool | StringV string | IntV int | DurationV duration

fun set_flag :: "string \<Rightarrow> flag_value \<Rightarrow> flags \<Rightarrow> flags option" where
  "set_flag n (StringV s) fl =
     (if n = ''metrics-addr'' then Some (fl\<lparr>metricsAddr := s\<rparr>)
      else if n = ''namespace'' then Some (fl\<lparr>watchNamespace := s\<rparr>)
      else if n = ''leader-election-namespace'' then Some (fl\<lparr>leaderElectionNamespace := s\<rparr>)
      else if n = ''profiler-address'' then Some (fl\<lparr>profilerAddress := s\<rparr>)
      else if n = ''watch-filter'' then Some (fl\<lparr>watchFilterValue := s\<rparr>)
      else if n = ''health-addr'' then Some (fl\<lparr>healthAddr := s\<rparr>)
      else None)"
| "set_flag n (BoolV b) fl =
     (if n = ''leader-elect'' then Some (fl\<lparr>enableLeaderElection := b\<rparr>) else None)"
| "set_flag n (DurationV d) fl =
     (if n = ''leader-elect-lease-duration'' then Some (fl\<lparr>leaderElectionLeaseDuration := d\<rparr>)
      else if n = ''leader-elect-renew-deadline'' then Some (fl\<lparr>leaderElectionRenewDeadline := d\<rparr>)
      else if n = ''leader-elect-retry-period'' then Some (fl\<lparr>leaderElectionRetryPeriod := d\<rparr>)
      else if n = ''sync-period'' then Some (fl\<lparr>syncPeriod := d\<rparr>)
      else if n = ''reconcile-timeout'' then Some (fl\<lparr>reconcileTimeout := d\<rparr>)
      else None)"
| "set_flag n (IntV i) fl =
     (if n = ''gcpcluster-concurrency'' then Some (fl\<lparr>gcpClusterConcurrency := i\<rparr>)
      else if n = ''gcpmachine-concurrency'' then Some (fl\<lparr>gcpMachineConcurrency := i\<rparr>)
      else if n = ''webhook-port'' then Some (fl\<lparr>webhookPort := i\<rparr>)
      else None)"

text \<open>
  main adds the flags of Go's own \<open>flag.CommandLine\<close> to the set before parsing (line 84):
  the flags of klog, registered by \<open>init\<close> (line 55), and those the imported libraries
  register. Their names, \<open>goflags\<close>, are a parameter. Such a flag is accepted and
  leaves the fifteen variables as they are; a name of \<open>initFlags\<close> takes precedence over
  a Go flag of the same name. Any other name, and a value of the wrong type for a flag of
  \<open>initFlags\<close>, is a parse error (\<open>None\<close>).
\<close>

fun parse_from ::
  "string list \<Rightarrow> flags \<Rightarrow> (string \<times> flag_value) list \<Rightarrow> flags option" where
  "parse_from goflags fl [] = Some fl"
| "parse_from goflags fl ((n, v) # args) =
     (case set_flag n v fl of
        Some fl' \<Rightarrow> parse_from goflags fl' args
      | None \<Rightarrow>
          if n \<notin> set flag_names \<and> n \<in> set goflags then parse_from goflags fl args
          else None)"

definition parse :: "string list \<Rightarrow> (string \<times> flag_value) list \<Rightarrow> flags option" where
  "parse goflags args = parse_from goflags initFlags args"

subsection \<open>What main hands to the libraries\<close>

record correlator_options =
  BurstSize :: int

datatype broadcaster = NewBroadcasterWithCorrelatorOptions correlator_options

text \<open>
  The scheme is the package-level value that \<open>init\<close> fills with four groups of types,
  discarding the errors.
\<close>

definition scheme :: "string list" where
  "scheme = [''clientgoscheme'', ''infrav1alpha3'', ''infrav1alpha4'', ''clusterv1'']"

text \<open>
  \<open>ctrl.Options\<close>, with the fields that main sets. The three lease durations and the
  sync period are pointers in Go (nil selects the library's default); main always
  passes the address of its variable, hence \<open>Some\<close>.
\<close>

record options =
  Scheme :: "string list"
  MetricsBindAddress :: string
  LeaderElection :: bool
  LeaderElectionID :: string
  LeaderElectionNamespace :: string
  LeaseDuration :: "duration option"
  RenewDeadline :: "duration option"
  RetryPeriod :: "duration option"
  SyncPeriod :: "duration option"
  Namespace :: string
  Port :: int
  HealthProbeBindAddress :: string
  EventBroadcaster :: broadcaster

datatype reconciler_kind = GCPMachineReconciler | GCPClusterReconciler

datatype webhook_kind = GCPMachineTemplate | GCPMachine

datatype client = MgrClient
  \<comment> \<open>the value of \<open>mgr.GetClient()\<close>\<close>

record reconciler =
  Client :: client
  Log :: "string list"
  ReconcileTimeout :: duration
  WatchFilterValue :: string

record controller_options =
  MaxConcurrentReconciles :: int

text \<open>
  A \<open>healthz.Checker\<close> is a function from the request to an error or nil.
  \<open>healthz.Ping\<close> is controller-runtime's checker that ignores the request and returns
  nil.
\<close>

type_synonym http_request = string

type_synonym checker = "http_request \<Rightarrow> err option"

definition Ping :: checker where
  "Ping = (\<lambda>req. None)"

subsection \<open>The environment and the trace\<close>

text \<open>
  \<open>mgr.Start\<close> blocks until the context is cancelled and then returns an error or nil;
  if the context is never cancelled it does not return.
\<close>

datatype start_result = Returns "err option" | Blocks

text \<open>
  The environment gives the result of every library call main makes, as a function of
  the arguments of the call. \<open>ret_GetConfigOrDie = None\<close> is the library terminating
  the process (it exits with status 1 when no configuration is found).
\<close>

record env =
  ret_GetConfigOrDie :: "rest_config option"
  ret_NewManager :: "rest_config \<Rightarrow> options \<Rightarrow> err option"
  ret_SetupSignalHandler :: ctx
  ret_SetupWithManager ::
    "reconciler_kind \<Rightarrow> reconciler \<Rightarrow> ctx \<Rightarrow> controller_options \<Rightarrow> err option"
  ret_SetupWebhookWithManager :: "webhook_kind \<Rightarrow> err option"
  ret_AddReadyzCheck :: "string \<Rightarrow> checker \<Rightarrow> err option"
  ret_AddHealthzCheck :: "string \<Rightarrow> checker \<Rightarrow> err option"
  ret_Start :: "ctx \<Rightarrow> start_result"
  ret_version :: string
  go_flag_names :: "string list"
    \<comment> \<open>the names of the flags of \<open>flag.CommandLine\<close>\<close>

text \<open>
  One event for each call and log line of main, with the arguments and, where the call
  returns something main looks at, the result.
\<close>

datatype event =
    LogInfo string "(string \<times> string) list"
  | LogError err string "(string \<times> string) list"
  | GoListenAndServe string
  | SetLogger
  | NewBroadcaster broadcaster
  | GetConfigOrDie "rest_config option"
  | NewManager rest_config options "err option"
  | InitFromRecorder string
  | SetupSignalHandler ctx
  | SetupWithManager reconciler_kind reconciler ctx controller_options "err option"
  | SetupWebhookWithManager webhook_kind "err option"
  | AddReadyzCheck string checker "err option"
  | AddHealthzCheck string checker "err option"
  | Start ctx start_result

record outcome =
  trace :: "event list"
  exit_status :: "nat option"
    \<comment> \<open>\<open>None\<close>: the process has not exited (the manager is still running)\<close>

subsection \<open>main\<close>

definition die :: "err \<Rightarrow> string \<Rightarrow> (string \<times> string) list \<Rightarrow> outcome" where
  \<comment> \<open>\<open>setupLog.Error(err, msg, kv...); os.Exit(1)\<close>\<close>
  "die er msg kv = \<lparr> trace = [LogError er msg kv], exit_status = Some 1 \<rparr>"

definition after :: "event list \<Rightarrow> outcome \<Rightarrow> outcome" where
  \<comment> \<open>the events \<open>evs\<close> happen, then the rest of main does \<open>out\<close>\<close>
  "after evs out = out\<lparr> trace := evs @ trace out \<rparr>"

text \<open>Lines 172 to 177: start the manager with the context.\<close>

definition start_manager :: "env \<Rightarrow> ctx \<Rightarrow> outcome" where
  "start_manager e c =
     (let r = ret_Start e c in
      after [LogInfo ''starting manager'' [(''version'', ret_version e)], Start c r]
        (case r of
           Blocks \<Rightarrow> \<lparr> trace = [], exit_status = None \<rparr>
         | Returns (Some er) \<Rightarrow> die er ''problem running manager'' []
         | Returns None \<Rightarrow> \<lparr> trace = [], exit_status = Some 0 \<rparr>))"

text \<open>Lines 162 to 170: the readiness and the liveness check.\<close>

definition add_checks :: "env \<Rightarrow> ctx \<Rightarrow> outcome" where
  "add_checks e c =
     (let r1 = ret_AddReadyzCheck e ''ping'' Ping in
      after [AddReadyzCheck ''ping'' Ping r1]
        (case r1 of
           Some er \<Rightarrow> die er ''unable to create ready check'' []
         | None \<Rightarrow>
             (let r2 = ret_AddHealthzCheck e ''ping'' Ping in
              after [AddHealthzCheck ''ping'' Ping r2]
                (case r2 of
                   Some er \<Rightarrow> die er ''unable to create health check'' []
                 | None \<Rightarrow> start_manager e c))))"

text \<open>Lines 133 to 150: the two reconcilers, when the webhook port is 0.\<close>

definition machine_reconciler :: "flags \<Rightarrow> reconciler" where
  "machine_reconciler fl =
     \<lparr> Client = MgrClient,
       Log = [''controllers'', ''GCPMachine''],
       ReconcileTimeout = reconcileTimeout fl,
       WatchFilterValue = watchFilterValue fl \<rparr>"

definition cluster_reconciler :: "flags \<Rightarrow> reconciler" where
  "cluster_reconciler fl =
     \<lparr> Client = MgrClient,
       Log = [''controllers'', ''GCPCluster''],
       ReconcileTimeout = reconcileTimeout fl,
       WatchFilterValue = watchFilterValue fl \<rparr>"

definition setup_reconcilers :: "flags \<Rightarrow> env \<Rightarrow> ctx \<Rightarrow> outcome" where
  "setup_reconcilers fl e c =
     (let rm = machine_reconciler fl;
          om = \<lparr> MaxConcurrentReconciles = gcpMachineConcurrency fl \<rparr>;
          r1 = ret_SetupWithManager e GCPMachineReconciler rm c om in
      after [SetupWithManager GCPMachineReconciler rm c om r1]
        (case r1 of
           Some er \<Rightarrow> die er ''unable to create controller'' [(''controller'', ''GCPMachine'')]
         | None \<Rightarrow>
             (let rc = cluster_reconciler fl;
                  oc = \<lparr> MaxConcurrentReconciles = gcpClusterConcurrency fl \<rparr>;
                  r2 = ret_SetupWithManager e GCPClusterReconciler rc c oc in
              after [SetupWithManager GCPClusterReconciler rc c oc r2]
                (case r2 of
                   Some er \<Rightarrow>
                     die er ''unable to create controller'' [(''controller'', ''GCPCluster'')]
                 | None \<Rightarrow> add_checks e c))))"

text \<open>Lines 152 to 159: the two webhooks, when the webhook port is not 0.\<close>

definition setup_webhooks :: "env \<Rightarrow> ctx \<Rightarrow> outcome" where
  "setup_webhooks e c =
     (let r1 = ret_SetupWebhookWithManager e GCPMachineTemplate in
      after [SetupWebhookWithManager GCPMachineTemplate r1]
        (case r1 of
           Some er \<Rightarrow> die er ''unable to create webhook'' [(''webhook'', ''GCPMachineTemplate'')]
         | None \<Rightarrow>
             (let r2 = ret_SetupWebhookWithManager e GCPMachine in
              after [SetupWebhookWithManager GCPMachine r2]
                (case r2 of
                   Some er \<Rightarrow> die er ''unable to create webhook'' [(''webhook'', ''GCPMachine'')]
                 | None \<Rightarrow> add_checks e c))))"

text \<open>Lines 87 to 98: the two optional log lines, the profiler goroutine, the logger.\<close>

definition announce :: "flags \<Rightarrow> event list" where
  "announce fl =
     (if watchNamespace fl \<noteq> ''''
      then [LogInfo ''Watching cluster-api objects only in namespace for reconciliation''
              [(''namespace'', watchNamespace fl)]]
      else [])
     @ (if profilerAddress fl \<noteq> ''''
        then [LogInfo ''Profiler listening for requests''
                [(''profiler-address'', profilerAddress fl)],
              GoListenAndServe (profilerAddress fl)]
        else [])
     @ [SetLogger]"

text \<open>Lines 102 to 120: the broadcaster and the options of the manager.\<close>

definition new_broadcaster :: broadcaster where
  "new_broadcaster = NewBroadcasterWithCorrelatorOptions \<lparr> BurstSize = 100 \<rparr>"

definition manager_options :: "flags \<Rightarrow> broadcaster \<Rightarrow> options" where
  "manager_options fl b =
     \<lparr> Scheme = scheme,
       MetricsBindAddress = metricsAddr fl,
       LeaderElection = enableLeaderElection fl,
       LeaderElectionID = ''controller-leader-election-capg'',
       LeaderElectionNamespace = leaderElectionNamespace fl,
       LeaseDuration = Some (leaderElectionLeaseDuration fl),
       RenewDeadline = Some (leaderElectionRenewDeadline fl),
       RetryPeriod = Some (leaderElectionRetryPeriod fl),
       SyncPeriod = Some (syncPeriod fl),
       Namespace = watchNamespace fl,
       Port = webhookPort fl,
       HealthProbeBindAddress = healthAddr fl,
       EventBroadcaster = b \<rparr>"

text \<open>
  main, from the line after \<open>pflag.Parse()\<close>: \<open>fl\<close> holds the variables as the
  parser left them. The goroutine that serves the profiler only appears as its launch;
  what it logs when the server stops is not part of main's own sequence.
\<close>

definition main :: "flags \<Rightarrow> env \<Rightarrow> outcome" where
  "main fl e =
     (let broadcaster = new_broadcaster in
      after (announce fl @ [NewBroadcaster broadcaster, GetConfigOrDie (ret_GetConfigOrDie e)])
        (case ret_GetConfigOrDie e of
           None \<Rightarrow> \<lparr> trace = [], exit_status = Some 1 \<rparr>
         | Some cfg \<Rightarrow>
             (let opts = manager_options fl broadcaster;
                  r = ret_NewManager e cfg opts in
              after [NewManager cfg opts r]
                (case r of
                   Some er \<Rightarrow> die er ''unable to start manager'' []
                 | None \<Rightarrow>
                     (let c = ret_SetupSignalHandler e in
                      after [InitFromRecorder ''gcp-controller'', SetupSignalHandler c]
                        (if webhookPort fl = 0
                         then setup_reconcilers fl e c
                         else setup_webhooks e c))))))"

text \<open>The whole program: parse the arguments, then run main on the variables.\<close>

definition run :: "(string \<times> flag_value) list \<Rightarrow> env \<Rightarrow> outcome option" where
  "run args e = map_option (\<lambda>fl. main fl e) (parse (go_flag_names e) args)"

text \<open>An environment in which every call succeeds and the manager shuts down cleanly.\<close>

definition ok_env :: env where
  "ok_env =
     \<lparr> ret_GetConfigOrDie = Some ''kubeconfig'',
       ret_NewManager = (\<lambda>cfg opts. None),
       ret_SetupSignalHandler = 1,
       ret_SetupWithManager = (\<lambda>k r c co. None),
       ret_SetupWebhookWithManager = (\<lambda>k. None),
       ret_AddReadyzCheck = (\<lambda>n ch. None),
       ret_AddHealthzCheck = (\<lambda>n ch. None),
       ret_Start = (\<lambda>c. Returns None),
       ret_version = ''v0.4.0'',
       go_flag_names = [''v'', ''logtostderr'', ''kubeconfig''] \<rparr>"

subsection \<open>Reading a trace\<close>

text \<open>
  The calls of one kind in a trace, in order, each with its arguments and its result.
\<close>

fun manager_call :: "event \<Rightarrow> (rest_config \<times> options \<times> err option) list" where
  "manager_call (NewManager cfg opts r) = [(cfg, opts, r)]"
| "manager_call _ = []"

definition manager_calls :: "event list \<Rightarrow> (rest_config \<times> options \<times> err option) list" where
  "manager_calls tr = concat (map manager_call tr)"

fun broadcaster_created :: "event \<Rightarrow> broadcaster list" where
  "broadcaster_created (NewBroadcaster b) = [b]"
| "broadcaster_created _ = []"

definition broadcasters_created :: "event list \<Rightarrow> broadcaster list" where
  "broadcasters_created tr = concat (map broadcaster_created tr)"

fun reconciler_call ::
  "event \<Rightarrow> (reconciler_kind \<times> reconciler \<times> controller_options \<times> err option) list" where
  "reconciler_call (SetupWithManager k r c co res) = [(k, r, co, res)]"
| "reconciler_call _ = []"

definition reconciler_calls ::
  "event list \<Rightarrow> (reconciler_kind \<times> reconciler \<times> controller_options \<times> err option) list" where
  "reconciler_calls tr = concat (map reconciler_call tr)"

definition registered_reconcilers :: "event list \<Rightarrow> reconciler_kind list" where
  \<comment> \<open>the kinds whose \<open>SetupWithManager\<close> returned nil\<close>
  "registered_reconcilers tr =
     map fst (filter (\<lambda>(k, r, co, res). res = None) (reconciler_calls tr))"

fun webhook_call :: "event \<Rightarrow> (webhook_kind \<times> err option) list" where
  "webhook_call (SetupWebhookWithManager k res) = [(k, res)]"
| "webhook_call _ = []"

definition webhook_calls :: "event list \<Rightarrow> (webhook_kind \<times> err option) list" where
  "webhook_calls tr = concat (map webhook_call tr)"

definition installed_webhooks :: "event list \<Rightarrow> webhook_kind list" where
  \<comment> \<open>the kinds whose \<open>SetupWebhookWithManager\<close> returned nil\<close>
  "installed_webhooks tr = map fst (filter (\<lambda>(k, res). res = None) (webhook_calls tr))"

fun readyz_call :: "event \<Rightarrow> (string \<times> checker \<times> err option) list" where
  "readyz_call (AddReadyzCheck n ch res) = [(n, ch, res)]"
| "readyz_call _ = []"

definition readyz_calls :: "event list \<Rightarrow> (string \<times> checker \<times> err option) list" where
  "readyz_calls tr = concat (map readyz_call tr)"

fun healthz_call :: "event \<Rightarrow> (string \<times> checker \<times> err option) list" where
  "healthz_call (AddHealthzCheck n ch res) = [(n, ch, res)]"
| "healthz_call _ = []"

definition healthz_calls :: "event list \<Rightarrow> (string \<times> checker \<times> err option) list" where
  "healthz_calls tr = concat (map healthz_call tr)"

fun context_created :: "event \<Rightarrow> ctx list" where
  "context_created (SetupSignalHandler c) = [c]"
| "context_created _ = []"

definition contexts_created :: "event list \<Rightarrow> ctx list" where
  "contexts_created tr = concat (map context_created tr)"

fun context_used :: "event \<Rightarrow> ctx list" where
  "context_used (SetupWithManager k r c co res) = [c]"
| "context_used (Start c r) = [c]"
| "context_used _ = []"

definition contexts_used :: "event list \<Rightarrow> ctx list" where
  \<comment> \<open>the contexts handed to a library call\<close>
  "contexts_used tr = concat (map context_used tr)"

fun start_call :: "event \<Rightarrow> (ctx \<times> start_result) list" where
  "start_call (Start c r) = [(c, r)]"
| "start_call _ = []"

definition start_calls :: "event list \<Rightarrow> (ctx \<times> start_result) list" where
  "start_calls tr = concat (map start_call tr)"

text \<open>
  The error of a failed construction step: building the manager, registering a
  reconciler, a webhook or a health check.
\<close>

fun construction_error :: "event \<Rightarrow> err option" where
  "construction_error (NewManager cfg opts r) = r"
| "construction_error (SetupWithManager k r c co res) = res"
| "construction_error (SetupWebhookWithManager k res) = res"
| "construction_error (AddReadyzCheck n ch res) = res"
| "construction_error (AddHealthzCheck n ch res) = res"
| "construction_error _ = None"

text \<open>
  A failed construction step is followed by one error line that carries its error, and
  by nothing else.
\<close>

fun failure_ends_trace :: "event list \<Rightarrow> bool" where
  "failure_ends_trace [] = True"
| "failure_ends_trace (ev # rest) =
     (case construction_error ev of
        None \<Rightarrow> failure_ends_trace rest
      | Some er \<Rightarrow> (case rest of [LogError er' msg kv] \<Rightarrow> er' = er | _ \<Rightarrow> False))"

text \<open>
  A component is constructed by these calls: the broadcaster, the manager, a reconciler
  or webhook set up with the manager. \<open>context_first\<close> says that none of them happens
  before the signal handler's context exists.
\<close>

fun constructs_component :: "event \<Rightarrow> bool" where
  "constructs_component (NewBroadcaster b) = True"
| "constructs_component (NewManager cfg opts r) = True"
| "constructs_component (SetupWithManager k r c co res) = True"
| "constructs_component (SetupWebhookWithManager k res) = True"
| "constructs_component _ = False"

definition context_first :: "event list \<Rightarrow> bool" where
  "context_first tr =
     list_all (\<lambda>ev. \<not> constructs_component ev) (takeWhile (\<lambda>ev. context_created ev = []) tr)"

subsection \<open>Sample runs\<close>

text \<open>
  An environment in which registering the GCPMachine reconciler fails, and one in which
  the manager cannot be built.
\<close>

definition machine_setup_fails :: env where
  "machine_setup_fails =
     ok_env\<lparr> ret_SetupWithManager :=
       (\<lambda>k r c co. if k = GCPMachineReconciler then Some ''no matches for kind'' else None) \<rparr>"

definition manager_fails :: env where
  "manager_fails = ok_env\<lparr> ret_NewManager := (\<lambda>cfg opts. Some ''connection refused'') \<rparr>"

text \<open>
  An environment in which the second webhook cannot be set up, one in which no
  configuration is found, and one in which adding the readiness check fails.
\<close>

definition webhook_setup_fails :: env where
  "webhook_setup_fails =
     ok_env\<lparr> ret_SetupWebhookWithManager :=
       (\<lambda>k. if k = GCPMachine then Some ''no kind is registered'' else None) \<rparr>"

definition no_config :: env where
  "no_config = ok_env\<lparr> ret_GetConfigOrDie := None \<rparr>"

definition readyz_fails :: env where
  "readyz_fails = ok_env\<lparr> ret_AddReadyzCheck := (\<lambda>n ch. Some ''already started'') \<rparr>"

text \<open>
  The variables after \<open>--webhook-port=0\<close>, and after
  \<open>--leader-elect-renew-deadline=20s --leader-elect-retry-period=30s\<close>: the renew
  deadline is then longer than the lease (15s) and the retry period longer than both.
\<close>

definition reconciler_mode :: flags where
  "reconciler_mode = initFlags\<lparr> webhookPort := 0 \<rparr>"

definition inverted_lease :: flags where
  "inverted_lease =
     initFlags\<lparr> leaderElectionRenewDeadline := 20 * Second,
                leaderElectionRetryPeriod := 30 * Second \<rparr>"

text \<open>
  The arguments \<open>--leader-elect --leader-election-namespace=capg-system\<close>, and the
  variables after parsing them.
\<close>

definition elect_args :: "(string \<times> flag_value) list" where
  "elect_args = [(''leader-elect'', BoolV True),
                 (''leader-election-namespace'', StringV ''capg-system'')]"

definition elect_flags :: flags where
  "elect_flags =
     initFlags\<lparr> enableLeaderElection := True, leaderElectionNamespace := ''capg-system'' \<rparr>"

text \<open>
  Reconciler mode with \<open>--gcpcluster-concurrency=3 --gcpmachine-concurrency=7
  --watch-filter=blue\<close>.
\<close>

definition tuned_mode :: flags where
  "tuned_mode =
     reconciler_mode\<lparr> gcpClusterConcurrency := 3, gcpMachineConcurrency := 7,
                      watchFilterValue := ''blue'' \<rparr>"

text \<open>
  The arguments \<open>-v=4 --leader-elect --leader-elect-lease-duration=60s
  --leader-elect-renew-deadline=40s --leader-elect-retry-period=5s\<close> (the first is a flag
  of klog), and the variables after parsing them.
\<close>

definition lease_args :: "(string \<times> flag_value) list" where
  "lease_args = [(''v'', IntV 4),
                 (''leader-elect'', BoolV True),
                 (''leader-elect-lease-duration'', DurationV (60 * Second)),
                 (''leader-elect-renew-deadline'', DurationV (40 * Second)),
                 (''leader-elect-retry-period'', DurationV (5 * Second))]"

definition lease_flags :: flags where
  "lease_flags =
     initFlags\<lparr> enableLeaderElection := True,
                leaderElectionLeaseDuration := 60 * Second,
                leaderElectionRenewDeadline := 40 * Second,
                leaderElectionRetryPeriod := 5 * Second \<rparr>"

section \<open>Properties\<close>

subsection \<open>Reading the trace of each part of main\<close>

lemma calls_append [simp]:
  "manager_calls (xs @ ys) = manager_calls xs @ manager_calls ys"
  "broadcasters_created (xs @ ys) = broadcasters_created xs @ broadcasters_created ys"
  "reconciler_calls (xs @ ys) = reconciler_calls xs @ reconciler_calls ys"
  "webhook_calls (xs @ ys) = webhook_calls xs @ webhook_calls ys"
  "readyz_calls (xs @ ys) = readyz_calls xs @ readyz_calls ys"
  "healthz_calls (xs @ ys) = healthz_calls xs @ healthz_calls ys"
  "contexts_created (xs @ ys) = contexts_created xs @ contexts_created ys"
  "contexts_used (xs @ ys) = contexts_used xs @ contexts_used ys"
  "start_calls (xs @ ys) = start_calls xs @ start_calls ys"
  by (simp_all add: manager_calls_def broadcasters_created_def reconciler_calls_def
      webhook_calls_def readyz_calls_def healthz_calls_def contexts_created_def
      contexts_used_def start_calls_def)

lemma calls_Nil [simp]:
  "manager_calls [] = []"
  "broadcasters_created [] = []"
  "reconciler_calls [] = []"
  "webhook_calls [] = []"
  "readyz_calls [] = []"
  "healthz_calls [] = []"
  "contexts_created [] = []"
  "contexts_used [] = []"
  "start_calls [] = []"
  by (simp_all add: manager_calls_def broadcasters_created_def reconciler_calls_def
      webhook_calls_def readyz_calls_def healthz_calls_def contexts_created_def
      contexts_used_def start_calls_def)

lemma calls_Cons [simp]:
  "manager_calls (ev # xs) = manager_call ev @ manager_calls xs"
  "broadcasters_created (ev # xs) = broadcaster_created ev @ broadcasters_created xs"
  "reconciler_calls (ev # xs) = reconciler_call ev @ reconciler_calls xs"
  "webhook_calls (ev # xs) = webhook_call ev @ webhook_calls xs"
  "readyz_calls (ev # xs) = readyz_call ev @ readyz_calls xs"
  "healthz_calls (ev # xs) = healthz_call ev @ healthz_calls xs"
  "contexts_created (ev # xs) = context_created ev @ contexts_created xs"
  "contexts_used (ev # xs) = context_used ev @ contexts_used xs"
  "start_calls (ev # xs) = start_call ev @ start_calls xs"
  by (simp_all add: manager_calls_def broadcasters_created_def reconciler_calls_def
      webhook_calls_def readyz_calls_def healthz_calls_def contexts_created_def
      contexts_used_def start_calls_def)

lemma announce_calls [simp]:
  "manager_calls (announce fl) = []"
  "broadcasters_created (announce fl) = []"
  "reconciler_calls (announce fl) = []"
  "webhook_calls (announce fl) = []"
  "readyz_calls (announce fl) = []"
  "healthz_calls (announce fl) = []"
  "contexts_created (announce fl) = []"
  "contexts_used (announce fl) = []"
  "start_calls (announce fl) = []"
  by (simp_all add: announce_def)


lemma after_simps [simp]:
  "trace (after evs out) = evs @ trace out"
  "exit_status (after evs out) = exit_status out"
  by (simp_all add: after_def)

lemma die_simps [simp]:
  "trace (die er msg kv) = [LogError er msg kv]"
  "exit_status (die er msg kv) = Some 1"
  by (simp_all add: die_def)

lemma start_manager_calls [simp]:
  "manager_calls (trace (start_manager e c)) = []"
  "broadcasters_created (trace (start_manager e c)) = []"
  "reconciler_calls (trace (start_manager e c)) = []"
  "webhook_calls (trace (start_manager e c)) = []"
  "readyz_calls (trace (start_manager e c)) = []"
  "healthz_calls (trace (start_manager e c)) = []"
  "contexts_created (trace (start_manager e c)) = []"
  "contexts_used (trace (start_manager e c)) = [c]"
  "start_calls (trace (start_manager e c)) = [(c, ret_Start e c)]"
  by (simp_all add: start_manager_def Let_def split: start_result.splits option.splits)

lemma add_checks_calls [simp]:
  "manager_calls (trace (add_checks e c)) = []"
  "broadcasters_created (trace (add_checks e c)) = []"
  "reconciler_calls (trace (add_checks e c)) = []"
  "webhook_calls (trace (add_checks e c)) = []"
  "contexts_created (trace (add_checks e c)) = []"
  "set (contexts_used (trace (add_checks e c))) \<subseteq> {c}"
  by (simp_all add: add_checks_def Let_def split: option.splits)

lemma add_checks_readyz [simp]:
  "readyz_calls (trace (add_checks e c)) = [(''ping'', Ping, ret_AddReadyzCheck e ''ping'' Ping)]"
  by (simp add: add_checks_def Let_def split: option.splits)

lemma add_checks_healthz [simp]:
  "healthz_calls (trace (add_checks e c)) =
     (if ret_AddReadyzCheck e ''ping'' Ping = None
      then [(''ping'', Ping, ret_AddHealthzCheck e ''ping'' Ping)] else [])"
  by (simp add: add_checks_def Let_def split: option.splits)

lemma setup_reconcilers_calls [simp]:
  "manager_calls (trace (setup_reconcilers fl e c)) = []"
  "broadcasters_created (trace (setup_reconcilers fl e c)) = []"
  "webhook_calls (trace (setup_reconcilers fl e c)) = []"
  "contexts_created (trace (setup_reconcilers fl e c)) = []"
  "set (contexts_used (trace (setup_reconcilers fl e c))) \<subseteq> {c}"
  using add_checks_calls(6) [of e c]
  by (simp_all add: setup_reconcilers_def Let_def split: option.splits)

lemma setup_reconcilers_reconciler_calls:
  "reconciler_calls (trace (setup_reconcilers fl e c)) =
     (let om = \<lparr> MaxConcurrentReconciles = gcpMachineConcurrency fl \<rparr>;
          oc = \<lparr> MaxConcurrentReconciles = gcpClusterConcurrency fl \<rparr>;
          r1 = ret_SetupWithManager e GCPMachineReconciler (machine_reconciler fl) c om;
          r2 = ret_SetupWithManager e GCPClusterReconciler (cluster_reconciler fl) c oc
      in (GCPMachineReconciler, machine_reconciler fl, om, r1)
         # (if r1 = None then [(GCPClusterReconciler, cluster_reconciler fl, oc, r2)] else []))"
  by (simp add: setup_reconcilers_def Let_def split: option.splits)

lemma setup_webhooks_calls [simp]:
  "manager_calls (trace (setup_webhooks e c)) = []"
  "broadcasters_created (trace (setup_webhooks e c)) = []"
  "reconciler_calls (trace (setup_webhooks e c)) = []"
  "contexts_created (trace (setup_webhooks e c)) = []"
  "set (contexts_used (trace (setup_webhooks e c))) \<subseteq> {c}"
  using add_checks_calls(6) [of e c]
  by (simp_all add: setup_webhooks_def Let_def split: option.splits)

lemma setup_webhooks_webhook_calls:
  "webhook_calls (trace (setup_webhooks e c)) =
     (let r1 = ret_SetupWebhookWithManager e GCPMachineTemplate;
          r2 = ret_SetupWebhookWithManager e GCPMachine
      in (GCPMachineTemplate, r1) # (if r1 = None then [(GCPMachine, r2)] else []))"
  by (simp add: setup_webhooks_def Let_def split: option.splits)

lemma manager_calls_main:
  "manager_calls (trace (main fl e)) =
     (case ret_GetConfigOrDie e of
        None \<Rightarrow> []
      | Some cfg \<Rightarrow> [(cfg, manager_options fl new_broadcaster,
                      ret_NewManager e cfg (manager_options fl new_broadcaster))])"
  by (simp add: main_def Let_def split: option.splits)

lemma reconciler_calls_main:
  "reconciler_calls (trace (main fl e)) =
     (case ret_GetConfigOrDie e of
        None \<Rightarrow> []
      | Some cfg \<Rightarrow>
          if ret_NewManager e cfg (manager_options fl new_broadcaster) \<noteq> None
             \<or> webhookPort fl \<noteq> 0
          then []
          else reconciler_calls (trace (setup_reconcilers fl e (ret_SetupSignalHandler e))))"
  by (simp add: main_def Let_def split: option.splits)

lemma webhook_calls_main:
  "webhook_calls (trace (main fl e)) =
     (case ret_GetConfigOrDie e of
        None \<Rightarrow> []
      | Some cfg \<Rightarrow>
          if ret_NewManager e cfg (manager_options fl new_broadcaster) \<noteq> None
             \<or> webhookPort fl = 0
          then []
          else webhook_calls (trace (setup_webhooks e (ret_SetupSignalHandler e))))"
  by (simp add: main_def Let_def split: option.splits)


lemma setup_reconcilers_readyz:
  "readyz_calls (trace (setup_reconcilers fl e c)) =
     (if registered_reconcilers (trace (setup_reconcilers fl e c))
           = [GCPMachineReconciler, GCPClusterReconciler]
      then [(''ping'', Ping, ret_AddReadyzCheck e ''ping'' Ping)] else [])"
  by (simp add: setup_reconcilers_def registered_reconcilers_def Let_def split: option.splits)

lemma setup_webhooks_readyz:
  "readyz_calls (trace (setup_webhooks e c)) =
     (if installed_webhooks (trace (setup_webhooks e c)) = [GCPMachineTemplate, GCPMachine]
      then [(''ping'', Ping, ret_AddReadyzCheck e ''ping'' Ping)] else [])"
  by (simp add: setup_webhooks_def installed_webhooks_def Let_def split: option.splits)

lemma setup_reconcilers_healthz:
  "healthz_calls (trace (setup_reconcilers fl e c)) =
     (if readyz_calls (trace (setup_reconcilers fl e c)) = [(''ping'', Ping, None)]
      then [(''ping'', Ping, ret_AddHealthzCheck e ''ping'' Ping)] else [])"
  by (simp add: setup_reconcilers_def Let_def split: option.splits)

lemma setup_webhooks_healthz:
  "healthz_calls (trace (setup_webhooks e c)) =
     (if readyz_calls (trace (setup_webhooks e c)) = [(''ping'', Ping, None)]
      then [(''ping'', Ping, ret_AddHealthzCheck e ''ping'' Ping)] else [])"
  by (simp add: setup_webhooks_def Let_def split: option.splits)

lemma registered_reconcilers_main:
  "registered_reconcilers (trace (main fl e)) =
     (case ret_GetConfigOrDie e of
        None \<Rightarrow> []
      | Some cfg \<Rightarrow>
          if ret_NewManager e cfg (manager_options fl new_broadcaster) \<noteq> None
             \<or> webhookPort fl \<noteq> 0
          then []
          else registered_reconcilers (trace (setup_reconcilers fl e (ret_SetupSignalHandler e))))"
  by (simp add: registered_reconcilers_def reconciler_calls_main split: option.splits)

lemma installed_webhooks_main:
  "installed_webhooks (trace (main fl e)) =
     (case ret_GetConfigOrDie e of
        None \<Rightarrow> []
      | Some cfg \<Rightarrow>
          if ret_NewManager e cfg (manager_options fl new_broadcaster) \<noteq> None
             \<or> webhookPort fl = 0
          then []
          else installed_webhooks (trace (setup_webhooks e (ret_SetupSignalHandler e))))"
  by (simp add: installed_webhooks_def webhook_calls_main split: option.splits)

lemma readyz_calls_main:
  "readyz_calls (trace (main fl e)) =
     (if (webhookPort fl = 0 \<and>
            registered_reconcilers (trace (main fl e)) = [GCPMachineReconciler, GCPClusterReconciler])
         \<or> (webhookPort fl \<noteq> 0 \<and>
            installed_webhooks (trace (main fl e)) = [GCPMachineTemplate, GCPMachine])
      then [(''ping'', Ping, ret_AddReadyzCheck e ''ping'' Ping)] else [])"
  unfolding registered_reconcilers_main installed_webhooks_main
  by (simp add: main_def Let_def setup_reconcilers_readyz setup_webhooks_readyz split: option.splits)

lemma healthz_calls_main:
  "healthz_calls (trace (main fl e)) =
     (if readyz_calls (trace (main fl e)) = [(''ping'', Ping, None)]
      then [(''ping'', Ping, ret_AddHealthzCheck e ''ping'' Ping)] else [])"
  by (simp add: main_def Let_def setup_reconcilers_healthz setup_webhooks_healthz split: option.splits)

text \<open>The definitions that evaluating a sample run unfolds.\<close>

lemmas run_defs =
  main_def setup_reconcilers_def setup_webhooks_def add_checks_def start_manager_def
  announce_def manager_options_def new_broadcaster_def machine_reconciler_def
  cluster_reconciler_def Let_def initFlags_def ok_env_def machine_setup_fails_def
  manager_fails_def webhook_setup_fails_def no_config_def readyz_fails_def
  reconciler_mode_def inverted_lease_def tuned_mode_def
  registered_reconcilers_def
  installed_webhooks_def

subsection \<open>Mode selection\<close>

text \<open>
  Claim C1. The webhook port selects the mode once, in the single test of main. With
  port 0, no webhook set-up is called, the reconcilers set up are GCPMachine and then
  GCPCluster (fewer only when a step before them failed), and a run that reaches the
  health checks has registered exactly these two. With a nonzero port, no reconciler
  set-up is called, the webhooks set up are GCPMachineTemplate and then GCPMachine, and a
  run that reaches the health checks has installed exactly these two. No run calls
  both a reconciler set-up and a webhook set-up.
\<close>

theorem mode_selection:
  "(webhookPort fl = 0 \<longrightarrow>
      webhook_calls (trace (main fl e)) = [] \<and>
      map fst (reconciler_calls (trace (main fl e)))
        \<in> {[], [GCPMachineReconciler], [GCPMachineReconciler, GCPClusterReconciler]} \<and>
      (readyz_calls (trace (main fl e)) \<noteq> [] \<longrightarrow>
         registered_reconcilers (trace (main fl e)) = [GCPMachineReconciler, GCPClusterReconciler]))
   \<and> (webhookPort fl \<noteq> 0 \<longrightarrow>
      reconciler_calls (trace (main fl e)) = [] \<and>
      map fst (webhook_calls (trace (main fl e)))
        \<in> {[], [GCPMachineTemplate], [GCPMachineTemplate, GCPMachine]} \<and>
      (readyz_calls (trace (main fl e)) \<noteq> [] \<longrightarrow>
         installed_webhooks (trace (main fl e)) = [GCPMachineTemplate, GCPMachine]))
   \<and> (reconciler_calls (trace (main fl e)) = [] \<or> webhook_calls (trace (main fl e)) = [])"
proof -
  have r: "map fst (reconciler_calls (trace (main fl e)))
        \<in> {[], [GCPMachineReconciler], [GCPMachineReconciler, GCPClusterReconciler]}"
    by (simp add: reconciler_calls_main setup_reconcilers_reconciler_calls Let_def
        split: option.splits)
  have w: "map fst (webhook_calls (trace (main fl e)))
        \<in> {[], [GCPMachineTemplate], [GCPMachineTemplate, GCPMachine]}"
    by (simp add: webhook_calls_main setup_webhooks_webhook_calls Let_def split: option.splits)
  have r0: "webhookPort fl \<noteq> 0 \<Longrightarrow> reconciler_calls (trace (main fl e)) = []"
    by (simp add: reconciler_calls_main split: option.splits)
  have w0: "webhookPort fl = 0 \<Longrightarrow> webhook_calls (trace (main fl e)) = []"
    by (simp add: webhook_calls_main split: option.splits)
  have c: "readyz_calls (trace (main fl e)) \<noteq> [] \<Longrightarrow>
      (webhookPort fl = 0 \<and>
         registered_reconcilers (trace (main fl e)) = [GCPMachineReconciler, GCPClusterReconciler])
      \<or> (webhookPort fl \<noteq> 0 \<and>
         installed_webhooks (trace (main fl e)) = [GCPMachineTemplate, GCPMachine])"
    using readyz_calls_main [of fl e] by (simp split: if_splits)
  show ?thesis using r w r0 w0 c by blast
qed

theorem mode_selection_witness:
  "webhookPort reconciler_mode = 0
   \<and> readyz_calls (trace (main reconciler_mode ok_env)) \<noteq> []
   \<and> webhook_calls (trace (main reconciler_mode ok_env)) = []
   \<and> registered_reconcilers (trace (main reconciler_mode ok_env))
       = [GCPMachineReconciler, GCPClusterReconciler]
   \<and> webhookPort initFlags \<noteq> 0
   \<and> readyz_calls (trace (main initFlags ok_env)) \<noteq> []
   \<and> reconciler_calls (trace (main initFlags ok_env)) = []
   \<and> installed_webhooks (trace (main initFlags ok_env)) = [GCPMachineTemplate, GCPMachine]"
proof -
  have h0: "webhookPort reconciler_mode = 0"
    by (simp add: reconciler_mode_def)
  have h1: "webhookPort initFlags \<noteq> 0"
    by (simp add: initFlags_def)
  have c0: "readyz_calls (trace (main reconciler_mode ok_env)) \<noteq> []"
    by (simp add: run_defs)
  have c1: "readyz_calls (trace (main initFlags ok_env)) \<noteq> []"
    by (simp add: run_defs)
  show ?thesis
    using mode_selection [of reconciler_mode ok_env] mode_selection [of initFlags ok_env]
      h0 h1 c0 c1
    by simp
qed

subsection \<open>Failures at startup\<close>

lemma failure_ends_trace_append:
  "list_all (\<lambda>ev. construction_error ev = None) xs \<Longrightarrow>
   failure_ends_trace (xs @ ys) = failure_ends_trace ys"
  by (induction xs) simp_all

lemma failure_ends_trace_split:
  "failure_ends_trace tr \<Longrightarrow> tr = pre @ ev # post \<Longrightarrow> construction_error ev = Some er \<Longrightarrow>
   \<exists>msg kv. post = [LogError er msg kv]"
proof (induction pre arbitrary: tr)
  case Nil
  then show ?case
    by (auto split: list.splits event.splits)
next
  case (Cons a pre)
  show ?case
  proof (cases "construction_error a")
    case None
    with Cons.prems have "failure_ends_trace (pre @ ev # post)" by simp
    from Cons.IH [OF this refl Cons.prems(3)] show ?thesis .
  next
    case (Some er')
    with Cons.prems have "\<exists>x m k. pre @ ev # post = [LogError x m k]"
      by (auto split: list.splits event.splits)
    then obtain x m k where eq: "pre @ ev # post = [LogError x m k]" by blast
    then have "pre = []" by (cases pre) simp_all
    with eq have "ev = LogError x m k" by simp
    with Cons.prems(3) show ?thesis by simp
  qed
qed

lemma announce_no_failure:
  "list_all (\<lambda>ev. construction_error ev = None) (announce fl)"
  by (simp add: announce_def)

lemma start_manager_failure:
  "failure_ends_trace (trace (start_manager e c))"
  "\<forall>ev \<in> set (trace (start_manager e c)). construction_error ev = None"
  "exit_status (start_manager e c) = Some 0 \<Longrightarrow>
     last (trace (start_manager e c)) = Start c (Returns None)"
  "trace (start_manager e c) \<noteq> []"
  by (simp_all add: start_manager_def Let_def split: start_result.splits option.splits)

lemma add_checks_failure:
  "failure_ends_trace (trace (add_checks e c))"
  "(\<exists>ev \<in> set (trace (add_checks e c)). construction_error ev \<noteq> None) \<Longrightarrow>
     exit_status (add_checks e c) = Some 1"
  "exit_status (add_checks e c) = Some 0 \<Longrightarrow>
     (\<forall>ev \<in> set (trace (add_checks e c)). construction_error ev = None) \<and>
     last (trace (add_checks e c)) = Start c (Returns None)"
  "trace (add_checks e c) \<noteq> []"
  using start_manager_failure [of e c]
  by (simp_all add: add_checks_def Let_def split: option.splits)

lemma setup_reconcilers_failure:
  "failure_ends_trace (trace (setup_reconcilers fl e c))"
  "(\<exists>ev \<in> set (trace (setup_reconcilers fl e c)). construction_error ev \<noteq> None) \<Longrightarrow>
     exit_status (setup_reconcilers fl e c) = Some 1"
  "exit_status (setup_reconcilers fl e c) = Some 0 \<Longrightarrow>
     (\<forall>ev \<in> set (trace (setup_reconcilers fl e c)). construction_error ev = None) \<and>
     last (trace (setup_reconcilers fl e c)) = Start c (Returns None)"
  "trace (setup_reconcilers fl e c) \<noteq> []"
  using add_checks_failure [of e c]
  by (simp_all add: setup_reconcilers_def Let_def split: option.splits)

lemma setup_webhooks_failure:
  "failure_ends_trace (trace (setup_webhooks e c))"
  "(\<exists>ev \<in> set (trace (setup_webhooks e c)). construction_error ev \<noteq> None) \<Longrightarrow>
     exit_status (setup_webhooks e c) = Some 1"
  "exit_status (setup_webhooks e c) = Some 0 \<Longrightarrow>
     (\<forall>ev \<in> set (trace (setup_webhooks e c)). construction_error ev = None) \<and>
     last (trace (setup_webhooks e c)) = Start c (Returns None)"
  "trace (setup_webhooks e c) \<noteq> []"
  using add_checks_failure [of e c]
  by (simp_all add: setup_webhooks_def Let_def split: option.splits)

lemma main_failure_ends_trace:
  "failure_ends_trace (trace (main fl e))"
  using setup_reconcilers_failure(1) [of fl e] setup_webhooks_failure(1) [of e]
  by (simp add: main_def Let_def failure_ends_trace_append announce_no_failure
      split: option.splits)

lemma announce_set:
  "ev \<in> set (announce fl) \<Longrightarrow> construction_error ev = None"
  by (auto simp: announce_def split: if_splits)

lemma main_failure_exit:
  "(\<exists>ev \<in> set (trace (main fl e)). construction_error ev \<noteq> None) \<Longrightarrow>
     exit_status (main fl e) = Some 1"
  using setup_reconcilers_failure(2) [of fl e "ret_SetupSignalHandler e"]
    setup_webhooks_failure(2) [of e "ret_SetupSignalHandler e"]
  by (auto simp: main_def Let_def dest: announce_set split: option.splits if_splits)

lemma main_exit_zero:
  "exit_status (main fl e) = Some 0 \<Longrightarrow>
     (\<forall>ev \<in> set (trace (main fl e)). construction_error ev = None) \<and>
     last (trace (main fl e)) = Start (ret_SetupSignalHandler e) (Returns None)"
  using setup_reconcilers_failure(3,4) [of fl e "ret_SetupSignalHandler e"]
    setup_webhooks_failure(3,4) [of e "ret_SetupSignalHandler e"]
  by (auto simp: main_def Let_def dest: announce_set split: option.splits if_splits)

lemma main_trace_nonempty: "trace (main fl e) \<noteq> []"
  by (simp add: main_def Let_def)

text \<open>
  Claim C2. When building the manager or registering a reconciler, a webhook or a health
  check returns an error, the process exits with status 1, and the only thing main does
  after the failed call is to log that error: one error line, then nothing (no second
  attempt, no later step). A run that exits with status 0 has no failed construction step
  and ends with the manager's Start returning nil.
\<close>

theorem startup_failure_fatal:
  "(trace (main fl e) = pre @ ev # post \<and> construction_error ev = Some er \<longrightarrow>
      exit_status (main fl e) = Some 1 \<and> (\<exists>msg kv. post = [LogError er msg kv]))
   \<and> (exit_status (main fl e) = Some 0 \<longrightarrow>
      (\<forall>ev' \<in> set (trace (main fl e)). construction_error ev' = None) \<and>
      (\<exists>before. trace (main fl e)
          = before @ [Start (ret_SetupSignalHandler e) (Returns None)]))"
proof (intro conjI impI)
  assume a: "trace (main fl e) = pre @ ev # post \<and> construction_error ev = Some er"
  then have "ev \<in> set (trace (main fl e))" by simp
  with a have "\<exists>ev \<in> set (trace (main fl e)). construction_error ev \<noteq> None" by auto
  then show "exit_status (main fl e) = Some 1" by (rule main_failure_exit)
  from a show "\<exists>msg kv. post = [LogError er msg kv]"
    using failure_ends_trace_split [OF main_failure_ends_trace, of fl e pre ev post er] by blast
next
  assume z: "exit_status (main fl e) = Some 0"
  from main_exit_zero [OF z]
  show "\<forall>ev' \<in> set (trace (main fl e)). construction_error ev' = None" by blast
  from main_exit_zero [OF z]
  have l: "last (trace (main fl e)) = Start (ret_SetupSignalHandler e) (Returns None)" by blast
  have "trace (main fl e) = butlast (trace (main fl e)) @ [last (trace (main fl e))]"
    using main_trace_nonempty [of fl e] by simp
  with l show "\<exists>before. trace (main fl e)
      = before @ [Start (ret_SetupSignalHandler e) (Returns None)]"
    by metis
qed

theorem startup_failure_fatal_witness:
  "(\<exists>pre ev post er.
      trace (main reconciler_mode machine_setup_fails) = pre @ ev # post
      \<and> construction_error ev = Some er
      \<and> exit_status (main reconciler_mode machine_setup_fails) = Some 1
      \<and> (\<exists>msg kv. post = [LogError er msg kv]))
   \<and> exit_status (main initFlags ok_env) = Some 0
   \<and> (\<exists>before. trace (main initFlags ok_env)
          = before @ [Start (ret_SetupSignalHandler ok_env) (Returns None)])"
proof -
  let ?rm = "\<lparr> Client = MgrClient, Log = [''controllers'', ''GCPMachine''],
      ReconcileTimeout = DefaultLoopTimeout, WatchFilterValue = '''' \<rparr>"
  let ?ev = "SetupWithManager GCPMachineReconciler ?rm 1 \<lparr> MaxConcurrentReconciles = 10 \<rparr>
      (Some ''no matches for kind'')"
  let ?pre = "[SetLogger, NewBroadcaster new_broadcaster, GetConfigOrDie (Some ''kubeconfig''),
      NewManager ''kubeconfig'' (manager_options reconciler_mode new_broadcaster) None,
      InitFromRecorder ''gcp-controller'', SetupSignalHandler 1]"
  let ?post = "[LogError ''no matches for kind'' ''unable to create controller''
      [(''controller'', ''GCPMachine'')]]"
  have t: "trace (main reconciler_mode machine_setup_fails) = ?pre @ ?ev # ?post"
    by (simp add: run_defs)
  have c: "construction_error ?ev = Some ''no matches for kind''"
    by simp
  have z: "exit_status (main initFlags ok_env) = Some 0"
    by (simp add: run_defs)
  show ?thesis
    using startup_failure_fatal [of reconciler_mode machine_setup_fails ?pre ?ev ?post
        "''no matches for kind''"]
      startup_failure_fatal [of initFlags ok_env] t c z
    by blast
qed

subsection \<open>The shutdown context\<close>

text \<open>
  Claim C3, as stated: the context is produced before any component is constructed.
  In the run with the default flags in which every call succeeds, the broadcaster
  and the manager are constructed before \<open>ctrl.SetupSignalHandler\<close> is called.
\<close>

theorem context_first_counterexample:
  "\<not> context_first (trace (main initFlags ok_env))"
  by (simp add: run_defs context_first_def)

text \<open>
  Claim C3, amended. When the manager has been built, main's trace is: the announcements,
  the broadcaster, the configuration, the manager, the event recorder, then the one call
  of \<open>ctrl.SetupSignalHandler\<close>, then the rest; the rest creates no further context,
  builds no manager and no broadcaster, and every context it hands to a reconciler set-up
  or to Start is the one the signal handler returned. When the manager has not been
  built, no context is created or used.
\<close>

theorem context_created_after_manager:
  "(ret_GetConfigOrDie e = Some cfg
      \<and> ret_NewManager e cfg (manager_options fl new_broadcaster) = None \<longrightarrow>
      (\<exists>rest. trace (main fl e) =
          announce fl
          @ [NewBroadcaster new_broadcaster, GetConfigOrDie (Some cfg),
              NewManager cfg (manager_options fl new_broadcaster) None,
              InitFromRecorder ''gcp-controller'',
              SetupSignalHandler (ret_SetupSignalHandler e)]
          @ rest
        \<and> contexts_created (announce fl) = [] \<and> contexts_used (announce fl) = []
        \<and> contexts_created rest = [] \<and> manager_calls rest = []
        \<and> broadcasters_created rest = []
        \<and> set (contexts_used rest) \<subseteq> {ret_SetupSignalHandler e}))
   \<and> ((\<forall>cfg'. ret_GetConfigOrDie e = Some cfg' \<longrightarrow>
          ret_NewManager e cfg' (manager_options fl new_broadcaster) \<noteq> None) \<longrightarrow>
      contexts_created (trace (main fl e)) = [] \<and> contexts_used (trace (main fl e)) = [])"
proof (intro conjI impI)
  assume a: "ret_GetConfigOrDie e = Some cfg
      \<and> ret_NewManager e cfg (manager_options fl new_broadcaster) = None"
  let ?c = "ret_SetupSignalHandler e"
  let ?rest = "trace (if webhookPort fl = 0 then setup_reconcilers fl e ?c
      else setup_webhooks e ?c)"
  have t: "trace (main fl e) =
      announce fl
      @ [NewBroadcaster new_broadcaster, GetConfigOrDie (Some cfg),
          NewManager cfg (manager_options fl new_broadcaster) None,
          InitFromRecorder ''gcp-controller'', SetupSignalHandler ?c]
      @ ?rest"
    using a by (simp add: main_def Let_def)
  have r: "contexts_created ?rest = []" "manager_calls ?rest = []"
    "broadcasters_created ?rest = []" "set (contexts_used ?rest) \<subseteq> {?c}"
    using setup_reconcilers_calls(5) [of fl e ?c] setup_webhooks_calls(5) [of e ?c]
    by simp_all
  show "\<exists>rest. trace (main fl e) =
          announce fl
          @ [NewBroadcaster new_broadcaster, GetConfigOrDie (Some cfg),
              NewManager cfg (manager_options fl new_broadcaster) None,
              InitFromRecorder ''gcp-controller'',
              SetupSignalHandler (ret_SetupSignalHandler e)]
          @ rest
        \<and> contexts_created (announce fl) = [] \<and> contexts_used (announce fl) = []
        \<and> contexts_created rest = [] \<and> manager_calls rest = []
        \<and> broadcasters_created rest = []
        \<and> set (contexts_used rest) \<subseteq> {ret_SetupSignalHandler e}"
    using t r announce_calls(7,8) [of fl] by blast
next
  assume n: "\<forall>cfg'. ret_GetConfigOrDie e = Some cfg' \<longrightarrow>
      ret_NewManager e cfg' (manager_options fl new_broadcaster) \<noteq> None"
  then show "contexts_created (trace (main fl e)) = []"
    by (auto simp: main_def Let_def split: option.splits)
  from n show "contexts_used (trace (main fl e)) = []"
    by (auto simp: main_def Let_def split: option.splits)
qed

theorem context_created_after_manager_witness:
  "ret_GetConfigOrDie ok_env = Some ''kubeconfig''
   \<and> ret_NewManager ok_env ''kubeconfig'' (manager_options reconciler_mode new_broadcaster) = None
   \<and> (\<exists>rest. trace (main reconciler_mode ok_env) =
          announce reconciler_mode
          @ [NewBroadcaster new_broadcaster, GetConfigOrDie (Some ''kubeconfig''),
              NewManager ''kubeconfig'' (manager_options reconciler_mode new_broadcaster) None,
              InitFromRecorder ''gcp-controller'',
              SetupSignalHandler 1]
          @ rest
        \<and> contexts_created rest = []
        \<and> set (contexts_used rest) \<subseteq> {1})
   \<and> ret_GetConfigOrDie manager_fails = Some ''kubeconfig''
   \<and> ret_NewManager manager_fails ''kubeconfig'' (manager_options initFlags new_broadcaster)
       = Some ''connection refused''
   \<and> contexts_created (trace (main initFlags manager_fails)) = []
   \<and> contexts_used (trace (main initFlags manager_fails)) = []"
proof -
  have h1: "ret_GetConfigOrDie ok_env = Some ''kubeconfig''"
    "ret_NewManager ok_env ''kubeconfig'' (manager_options reconciler_mode new_broadcaster) = None"
    "ret_SetupSignalHandler ok_env = 1"
    by (simp_all add: ok_env_def)
  have h2: "\<forall>cfg'. ret_GetConfigOrDie manager_fails = Some cfg' \<longrightarrow>
      ret_NewManager manager_fails cfg' (manager_options initFlags new_broadcaster) \<noteq> None"
    by (simp add: manager_fails_def ok_env_def)
  have h3: "ret_GetConfigOrDie manager_fails = Some ''kubeconfig''"
    "ret_NewManager manager_fails ''kubeconfig'' (manager_options initFlags new_broadcaster)
       = Some ''connection refused''"
    by (simp_all add: manager_fails_def ok_env_def)
  show ?thesis
    using context_created_after_manager [of ok_env "''kubeconfig''" reconciler_mode]
      context_created_after_manager [of manager_fails "''kubeconfig''" initFlags] h1 h2 h3
    by auto
qed

subsection \<open>Health checks\<close>

text \<open>
  Claim C4, as stated: both checks are registered in every run. In reconciler mode, when
  registering the GCPMachine reconciler fails, the process exits before either check is
  added.
\<close>

theorem ping_checks_counterexample:
  "readyz_calls (trace (main reconciler_mode machine_setup_fails)) = []
   \<and> healthz_calls (trace (main reconciler_mode machine_setup_fails)) = []
   \<and> exit_status (main reconciler_mode machine_setup_fails) = Some 1"
  by (simp add: run_defs)

lemma setup_reconcilers_exit:
  "registered_reconcilers (trace (setup_reconcilers fl e c))
     \<noteq> [GCPMachineReconciler, GCPClusterReconciler] \<Longrightarrow>
   exit_status (setup_reconcilers fl e c) = Some 1"
  by (simp add: setup_reconcilers_def registered_reconcilers_def Let_def split: option.splits)

lemma setup_webhooks_exit:
  "installed_webhooks (trace (setup_webhooks e c)) \<noteq> [GCPMachineTemplate, GCPMachine] \<Longrightarrow>
   exit_status (setup_webhooks e c) = Some 1"
  by (simp add: setup_webhooks_def installed_webhooks_def Let_def split: option.splits)

lemma add_checks_readyz_exit:
  "ret_AddReadyzCheck e ''ping'' Ping \<noteq> None \<Longrightarrow> exit_status (add_checks e c) = Some 1"
  by (auto simp: add_checks_def Let_def split: option.splits)

lemma main_exit_unregistered:
  assumes "\<not> ((webhookPort fl = 0
       \<and> registered_reconcilers (trace (main fl e)) = [GCPMachineReconciler, GCPClusterReconciler])
     \<or> (webhookPort fl \<noteq> 0
       \<and> installed_webhooks (trace (main fl e)) = [GCPMachineTemplate, GCPMachine]))"
  shows "exit_status (main fl e) = Some 1"
proof (cases "ret_GetConfigOrDie e")
  case None
  then show ?thesis by (simp add: main_def Let_def)
next
  case (Some cfg)
  show ?thesis
  proof (cases "ret_NewManager e cfg (manager_options fl new_broadcaster)")
    case (Some er)
    with \<open>ret_GetConfigOrDie e = Some cfg\<close> show ?thesis by (simp add: main_def Let_def)
  next
    case None
    show ?thesis
    proof (cases "webhookPort fl = 0")
      case True
      with assms Some None
      have "registered_reconcilers (trace (setup_reconcilers fl e (ret_SetupSignalHandler e)))
          \<noteq> [GCPMachineReconciler, GCPClusterReconciler]"
        by (simp add: registered_reconcilers_main)
      from setup_reconcilers_exit [OF this] Some None True show ?thesis
        by (simp add: main_def Let_def)
    next
      case False
      with assms Some None
      have "installed_webhooks (trace (setup_webhooks e (ret_SetupSignalHandler e)))
          \<noteq> [GCPMachineTemplate, GCPMachine]"
        by (simp add: installed_webhooks_main)
      from setup_webhooks_exit [OF this] Some None False show ?thesis
        by (simp add: main_def Let_def)
    qed
  qed
qed

lemma main_exit_readyz_fails:
  assumes "ret_AddReadyzCheck e ''ping'' Ping \<noteq> None"
  shows "exit_status (main fl e) = Some 1"
proof (cases "exit_status (main fl e) = Some 1")
  case True
  then show ?thesis .
next
  case False
  have ok: "(webhookPort fl = 0
       \<and> registered_reconcilers (trace (main fl e)) = [GCPMachineReconciler, GCPClusterReconciler])
     \<or> (webhookPort fl \<noteq> 0
       \<and> installed_webhooks (trace (main fl e)) = [GCPMachineTemplate, GCPMachine])"
    using False main_exit_unregistered [of fl e] by blast
  obtain cfg where g: "ret_GetConfigOrDie e = Some cfg"
    using False by (cases "ret_GetConfigOrDie e") (simp_all add: main_def Let_def)
  have m: "ret_NewManager e cfg (manager_options fl new_broadcaster) = None"
    using False g
    by (cases "ret_NewManager e cfg (manager_options fl new_broadcaster)")
      (simp_all add: main_def Let_def)
  show ?thesis
  proof (cases "webhookPort fl = 0")
    case True
    with ok g m
    have "registered_reconcilers (trace (setup_reconcilers fl e (ret_SetupSignalHandler e)))
        = [GCPMachineReconciler, GCPClusterReconciler]"
      by (simp add: registered_reconcilers_main)
    then have "exit_status (setup_reconcilers fl e (ret_SetupSignalHandler e)) = Some 1"
      using add_checks_readyz_exit [OF assms, of "ret_SetupSignalHandler e"]
      by (simp add: setup_reconcilers_def registered_reconcilers_def Let_def
          split: option.splits)
    with g m True show ?thesis by (simp add: main_def Let_def)
  next
    case False
    with ok g m
    have "installed_webhooks (trace (setup_webhooks e (ret_SetupSignalHandler e)))
        = [GCPMachineTemplate, GCPMachine]"
      by (simp add: installed_webhooks_main)
    then have "exit_status (setup_webhooks e (ret_SetupSignalHandler e)) = Some 1"
      using add_checks_readyz_exit [OF assms, of "ret_SetupSignalHandler e"]
      by (simp add: setup_webhooks_def installed_webhooks_def Let_def split: option.splits)
    with g m False show ?thesis by (simp add: main_def Let_def)
  qed
qed


text \<open>
  Claim C4, amended. In a run in which the two registrations of the selected mode
  succeeded, whichever mode that is, the readiness check \<open>ping\<close> is added with
  \<open>healthz.Ping\<close>; when that call succeeds the liveness check \<open>ping\<close> is added with
  the same checker, and when it fails the process exits with status 1 without a liveness
  check. In every other run (no configuration, no manager, or a registration of the
  selected mode failed) the process exits with status 1 and no health check has been
  added. A check that is added is named \<open>ping\<close> and is \<open>healthz.Ping\<close>, which
  returns nil for every request.
\<close>

theorem ping_checks_after_registration:
  "((webhookPort fl = 0
       \<and> registered_reconcilers (trace (main fl e)) = [GCPMachineReconciler, GCPClusterReconciler])
     \<or> (webhookPort fl \<noteq> 0
       \<and> installed_webhooks (trace (main fl e)) = [GCPMachineTemplate, GCPMachine])
     \<longrightarrow>
       readyz_calls (trace (main fl e)) = [(''ping'', Ping, ret_AddReadyzCheck e ''ping'' Ping)]
       \<and> (ret_AddReadyzCheck e ''ping'' Ping = None \<longrightarrow>
            healthz_calls (trace (main fl e))
              = [(''ping'', Ping, ret_AddHealthzCheck e ''ping'' Ping)])
       \<and> (ret_AddReadyzCheck e ''ping'' Ping \<noteq> None \<longrightarrow>
            healthz_calls (trace (main fl e)) = [] \<and> exit_status (main fl e) = Some 1))
   \<and> (\<not> ((webhookPort fl = 0
       \<and> registered_reconcilers (trace (main fl e)) = [GCPMachineReconciler, GCPClusterReconciler])
     \<or> (webhookPort fl \<noteq> 0
       \<and> installed_webhooks (trace (main fl e)) = [GCPMachineTemplate, GCPMachine]))
     \<longrightarrow>
       readyz_calls (trace (main fl e)) = []
       \<and> healthz_calls (trace (main fl e)) = []
       \<and> exit_status (main fl e) = Some 1)
   \<and> ((n, ch, res) \<in> set (readyz_calls (trace (main fl e)) @ healthz_calls (trace (main fl e)))
     \<longrightarrow> n = ''ping'' \<and> ch = Ping)
   \<and> Ping req = None"
proof -
  let ?ok = "(webhookPort fl = 0
       \<and> registered_reconcilers (trace (main fl e)) = [GCPMachineReconciler, GCPClusterReconciler])
     \<or> (webhookPort fl \<noteq> 0
       \<and> installed_webhooks (trace (main fl e)) = [GCPMachineTemplate, GCPMachine])"
  let ?r = "ret_AddReadyzCheck e ''ping'' Ping"
  let ?h = "ret_AddHealthzCheck e ''ping'' Ping"
  have r1: "?ok \<Longrightarrow> readyz_calls (trace (main fl e)) = [(''ping'', Ping, ?r)]"
    using readyz_calls_main [of fl e] by simp
  have r0: "\<not> ?ok \<Longrightarrow> readyz_calls (trace (main fl e)) = []"
    using readyz_calls_main [of fl e] by simp
  have h1: "?ok \<Longrightarrow> ?r = None \<Longrightarrow> healthz_calls (trace (main fl e)) = [(''ping'', Ping, ?h)]"
    using healthz_calls_main [of fl e] r1 by simp
  have h2: "?ok \<Longrightarrow> ?r \<noteq> None \<Longrightarrow> healthz_calls (trace (main fl e)) = []"
    using healthz_calls_main [of fl e] r1 by simp
  have h0: "\<not> ?ok \<Longrightarrow> healthz_calls (trace (main fl e)) = []"
    using healthz_calls_main [of fl e] r0 by simp
  have x0: "\<not> ?ok \<Longrightarrow> exit_status (main fl e) = Some 1"
    by (rule main_exit_unregistered)
  have x2: "?r \<noteq> None \<Longrightarrow> exit_status (main fl e) = Some 1"
    by (rule main_exit_readyz_fails)
  have a: "set (readyz_calls (trace (main fl e))) \<subseteq> {(''ping'', Ping, ?r)}"
    by (auto simp: readyz_calls_main)
  have b: "set (healthz_calls (trace (main fl e))) \<subseteq> {(''ping'', Ping, ?h)}"
    by (auto simp: healthz_calls_main)
  have c: "(n, ch, res) \<in> set (readyz_calls (trace (main fl e)) @ healthz_calls (trace (main fl e)))
     \<Longrightarrow> n = ''ping'' \<and> ch = Ping"
    using a b by auto
  have p: "Ping req = None"
    by (simp add: Ping_def)
  have ok: "?ok \<longrightarrow>
       readyz_calls (trace (main fl e)) = [(''ping'', Ping, ?r)]
       \<and> (?r = None \<longrightarrow> healthz_calls (trace (main fl e)) = [(''ping'', Ping, ?h)])
       \<and> (?r \<noteq> None \<longrightarrow>
            healthz_calls (trace (main fl e)) = [] \<and> exit_status (main fl e) = Some 1)"
    using r1 h1 h2 x2 by blast
  have no: "\<not> ?ok \<longrightarrow>
       readyz_calls (trace (main fl e)) = []
       \<and> healthz_calls (trace (main fl e)) = []
       \<and> exit_status (main fl e) = Some 1"
    using r0 h0 x0 by blast
  from c have c': "(n, ch, res)
       \<in> set (readyz_calls (trace (main fl e)) @ healthz_calls (trace (main fl e)))
     \<longrightarrow> n = ''ping'' \<and> ch = Ping"
    by (rule impI)
  from ok no c' p show ?thesis
    by (intro conjI)
qed

theorem ping_checks_after_registration_witness:
  "webhookPort reconciler_mode = 0
   \<and> registered_reconcilers (trace (main reconciler_mode ok_env))
       = [GCPMachineReconciler, GCPClusterReconciler]
   \<and> readyz_calls (trace (main reconciler_mode ok_env)) = [(''ping'', Ping, None)]
   \<and> healthz_calls (trace (main reconciler_mode ok_env)) = [(''ping'', Ping, None)]
   \<and> webhookPort initFlags \<noteq> 0
   \<and> installed_webhooks (trace (main initFlags ok_env)) = [GCPMachineTemplate, GCPMachine]
   \<and> readyz_calls (trace (main initFlags ok_env)) = [(''ping'', Ping, None)]
   \<and> healthz_calls (trace (main initFlags ok_env)) = [(''ping'', Ping, None)]
   \<and> installed_webhooks (trace (main initFlags webhook_setup_fails)) = [GCPMachineTemplate]
   \<and> readyz_calls (trace (main initFlags webhook_setup_fails)) = []
   \<and> healthz_calls (trace (main initFlags webhook_setup_fails)) = []
   \<and> exit_status (main initFlags webhook_setup_fails) = Some 1
   \<and> registered_reconcilers (trace (main reconciler_mode no_config)) = []
   \<and> readyz_calls (trace (main reconciler_mode no_config)) = []
   \<and> healthz_calls (trace (main reconciler_mode no_config)) = []
   \<and> exit_status (main reconciler_mode no_config) = Some 1
   \<and> ret_AddReadyzCheck readyz_fails ''ping'' Ping = Some ''already started''
   \<and> readyz_calls (trace (main initFlags readyz_fails))
       = [(''ping'', Ping, Some ''already started'')]
   \<and> healthz_calls (trace (main initFlags readyz_fails)) = []
   \<and> exit_status (main initFlags readyz_fails) = Some 1"
proof -
  have h: "webhookPort reconciler_mode = 0"
    "registered_reconcilers (trace (main reconciler_mode ok_env))
       = [GCPMachineReconciler, GCPClusterReconciler]"
    "webhookPort initFlags \<noteq> 0"
    "installed_webhooks (trace (main initFlags ok_env)) = [GCPMachineTemplate, GCPMachine]"
    "ret_AddReadyzCheck ok_env ''ping'' Ping = None"
    "ret_AddHealthzCheck ok_env ''ping'' Ping = None"
    by (simp_all add: run_defs)
  have f: "installed_webhooks (trace (main initFlags webhook_setup_fails)) = [GCPMachineTemplate]"
    "registered_reconcilers (trace (main reconciler_mode no_config)) = []"
    by (simp_all add: run_defs)
  have g: "installed_webhooks (trace (main initFlags readyz_fails))
       = [GCPMachineTemplate, GCPMachine]"
    "ret_AddReadyzCheck readyz_fails ''ping'' Ping = Some ''already started''"
    by (simp_all add: run_defs)
  have w1: "readyz_calls (trace (main reconciler_mode ok_env)) = [(''ping'', Ping, None)]
      \<and> healthz_calls (trace (main reconciler_mode ok_env)) = [(''ping'', Ping, None)]"
    using ping_checks_after_registration [where fl = reconciler_mode and e = ok_env
        and n = "''ping''"
        and ch = Ping and res = None and req = "''GET /healthz''"] h(1,2,5,6) by simp
  have w2: "readyz_calls (trace (main initFlags ok_env)) = [(''ping'', Ping, None)]
      \<and> healthz_calls (trace (main initFlags ok_env)) = [(''ping'', Ping, None)]"
    using ping_checks_after_registration [where fl = initFlags and e = ok_env
        and n = "''ping''"
        and ch = Ping and res = None and req = "''GET /healthz''"] h(3,4,5,6) by simp
  have w3: "readyz_calls (trace (main initFlags webhook_setup_fails)) = []
      \<and> healthz_calls (trace (main initFlags webhook_setup_fails)) = []
      \<and> exit_status (main initFlags webhook_setup_fails) = Some 1"
    using ping_checks_after_registration [where fl = initFlags and e = webhook_setup_fails
        and n = "''ping''"
        and ch = Ping and res = None and req = "''GET /healthz''"] h(3) f(1) by simp
  have w4: "readyz_calls (trace (main reconciler_mode no_config)) = []
      \<and> healthz_calls (trace (main reconciler_mode no_config)) = []
      \<and> exit_status (main reconciler_mode no_config) = Some 1"
    using ping_checks_after_registration [where fl = reconciler_mode and e = no_config
        and n = "''ping''"
        and ch = Ping and res = None and req = "''GET /healthz''"] h(1) f(2) by simp
  have w5: "readyz_calls (trace (main initFlags readyz_fails))
       = [(''ping'', Ping, Some ''already started'')]
      \<and> healthz_calls (trace (main initFlags readyz_fails)) = []
      \<and> exit_status (main initFlags readyz_fails) = Some 1"
    using ping_checks_after_registration [where fl = initFlags and e = readyz_fails
        and n = "''ping''"
        and ch = Ping and res = None and req = "''GET /healthz''"] h(3) g by simp
  from h(1,2,3,4) f g(2) w1 w2 w3 w4 w5 show ?thesis
    by (intro conjI) (erule conjunct1 conjunct2 | assumption | simp)+
qed

subsection \<open>The lease durations\<close>

text \<open>
  Claim C5, as stated: a configuration whose renew deadline is not below the lease
  duration, or whose retry period is not below the renew deadline, is rejected at
  startup. With a renew deadline of 20s and a retry period of 30s against the default
  lease of 15s, and a library that accepts the options, main builds the manager, starts
  it and exits with status 0.
\<close>

theorem lease_order_counterexample:
  "leaderElectionLeaseDuration inverted_lease \<le> leaderElectionRenewDeadline inverted_lease
   \<and> leaderElectionRenewDeadline inverted_lease \<le> leaderElectionRetryPeriod inverted_lease
   \<and> exit_status (main inverted_lease ok_env) = Some 0
   \<and> start_calls (trace (main inverted_lease ok_env)) = [(1, Returns None)]
   \<and> list_all (\<lambda>ev. construction_error ev = None) (trace (main inverted_lease ok_env))"
  by (simp add: run_defs Second_def Minute_def)

text \<open>
  Claim C5, amended. main does not compare the three durations: whatever their order,
  they reach the manager's options unchanged, and when every library call succeeds the
  manager is started and the process exits with status 0. Only an error returned by a
  library call ends startup.
\<close>

theorem lease_order_not_checked:
  assumes "ret_GetConfigOrDie e = Some cfg"
    and "ret_NewManager e cfg (manager_options fl new_broadcaster) = None"
    and "\<forall>k r c co. ret_SetupWithManager e k r c co = None"
    and "\<forall>k. ret_SetupWebhookWithManager e k = None"
    and "ret_AddReadyzCheck e ''ping'' Ping = None"
    and "ret_AddHealthzCheck e ''ping'' Ping = None"
    and "ret_Start e (ret_SetupSignalHandler e) = Returns None"
  shows "exit_status (main fl e) = Some 0
    \<and> start_calls (trace (main fl e)) = [(ret_SetupSignalHandler e, Returns None)]
    \<and> manager_calls (trace (main fl e)) = [(cfg, manager_options fl new_broadcaster, None)]
    \<and> LeaseDuration (manager_options fl new_broadcaster) = Some (leaderElectionLeaseDuration fl)
    \<and> RenewDeadline (manager_options fl new_broadcaster) = Some (leaderElectionRenewDeadline fl)
    \<and> RetryPeriod (manager_options fl new_broadcaster) = Some (leaderElectionRetryPeriod fl)"
proof -
  have x: "exit_status (main fl e) = Some 0"
    using assms
    by (simp add: main_def setup_reconcilers_def setup_webhooks_def add_checks_def
        start_manager_def Let_def)
  have s: "start_calls (trace (main fl e)) = [(ret_SetupSignalHandler e, Returns None)]"
    using assms
    by (simp add: main_def setup_reconcilers_def setup_webhooks_def add_checks_def Let_def)
  have m: "manager_calls (trace (main fl e)) = [(cfg, manager_options fl new_broadcaster, None)]"
    using assms(1,2) by (simp add: manager_calls_main)
  show ?thesis using x s m by (simp add: manager_options_def)
qed

theorem lease_order_not_checked_witness:
  "leaderElectionLeaseDuration inverted_lease \<le> leaderElectionRenewDeadline inverted_lease
   \<and> exit_status (main inverted_lease ok_env) = Some 0
   \<and> (\<exists>cfg opts. manager_calls (trace (main inverted_lease ok_env)) = [(cfg, opts, None)]
        \<and> LeaseDuration opts = Some (15 * Second)
        \<and> RenewDeadline opts = Some (20 * Second)
        \<and> RetryPeriod opts = Some (30 * Second))"
proof -
  have h: "ret_GetConfigOrDie ok_env = Some ''kubeconfig''"
    "ret_NewManager ok_env ''kubeconfig'' (manager_options inverted_lease new_broadcaster) = None"
    "\<forall>k r c co. ret_SetupWithManager ok_env k r c co = None"
    "\<forall>k. ret_SetupWebhookWithManager ok_env k = None"
    "ret_AddReadyzCheck ok_env ''ping'' Ping = None"
    "ret_AddHealthzCheck ok_env ''ping'' Ping = None"
    "ret_Start ok_env (ret_SetupSignalHandler ok_env) = Returns None"
    by (simp_all add: ok_env_def)
  have d: "leaderElectionLeaseDuration inverted_lease = 15 * Second"
    "leaderElectionRenewDeadline inverted_lease = 20 * Second"
    "leaderElectionRetryPeriod inverted_lease = 30 * Second"
    by (simp_all add: inverted_lease_def initFlags_def)
  have o: "leaderElectionLeaseDuration inverted_lease
      \<le> leaderElectionRenewDeadline inverted_lease"
    by (simp add: d Second_def)
  show ?thesis
    using lease_order_not_checked [OF h] d o by simp
qed

subsection \<open>Leader election options\<close>

lemma manager_calls_member:
  "(cfg, opts, r) \<in> set (manager_calls (trace (main fl e))) \<Longrightarrow>
     opts = manager_options fl new_broadcaster"
  by (simp add: manager_calls_main split: option.splits)

text \<open>
  Claim C6. Without arguments the variables hold the defaults: leader election off, lease
  duration 15s, renew deadline 10s, retry period 2s. Each of the four flags
  \<open>leader-elect\<close>, \<open>leader-elect-lease-duration\<close>, \<open>leader-elect-renew-deadline\<close> and
  \<open>leader-elect-retry-period\<close> sets its own variable and no other. Every call of
  \<open>ctrl.NewManager\<close> gets the four variables as they are, so leader election is off in
  the options exactly when the flag is false; and the call is made whenever the
  configuration was obtained.
\<close>

theorem leader_election_options:
  "parse goflags [] = Some initFlags
   \<and> enableLeaderElection initFlags = False
   \<and> leaderElectionLeaseDuration initFlags = 15 * Second
   \<and> leaderElectionRenewDeadline initFlags = 10 * Second
   \<and> leaderElectionRetryPeriod initFlags = 2 * Second
   \<and> set_flag ''leader-elect'' (BoolV b) fl = Some (fl\<lparr> enableLeaderElection := b \<rparr>)
   \<and> set_flag ''leader-elect-lease-duration'' (DurationV d) fl
       = Some (fl\<lparr> leaderElectionLeaseDuration := d \<rparr>)
   \<and> set_flag ''leader-elect-renew-deadline'' (DurationV d) fl
       = Some (fl\<lparr> leaderElectionRenewDeadline := d \<rparr>)
   \<and> set_flag ''leader-elect-retry-period'' (DurationV d) fl
       = Some (fl\<lparr> leaderElectionRetryPeriod := d \<rparr>)
   \<and> ((cfg, opts, r) \<in> set (manager_calls (trace (main fl e))) \<longrightarrow>
        LeaderElection opts = enableLeaderElection fl
        \<and> LeaseDuration opts = Some (leaderElectionLeaseDuration fl)
        \<and> RenewDeadline opts = Some (leaderElectionRenewDeadline fl)
        \<and> RetryPeriod opts = Some (leaderElectionRetryPeriod fl))
   \<and> (ret_GetConfigOrDie e \<noteq> None \<longrightarrow> manager_calls (trace (main fl e)) \<noteq> [])
   \<and> (run args e = Some out \<and> (cfg, opts, r) \<in> set (manager_calls (trace out)) \<longrightarrow>
        (\<exists>fl'. parse (go_flag_names e) args = Some fl'
           \<and> LeaderElection opts = enableLeaderElection fl'
           \<and> LeaseDuration opts = Some (leaderElectionLeaseDuration fl')
           \<and> RenewDeadline opts = Some (leaderElectionRenewDeadline fl')
           \<and> RetryPeriod opts = Some (leaderElectionRetryPeriod fl')))"
proof -
  have d: "parse goflags [] = Some initFlags" "enableLeaderElection initFlags = False"
    "leaderElectionLeaseDuration initFlags = 15 * Second"
    "leaderElectionRenewDeadline initFlags = 10 * Second"
    "leaderElectionRetryPeriod initFlags = 2 * Second"
    by (simp_all add: parse_def initFlags_def)
  have s: "set_flag ''leader-elect'' (BoolV b) fl = Some (fl\<lparr> enableLeaderElection := b \<rparr>)"
    "set_flag ''leader-elect-lease-duration'' (DurationV d) fl
       = Some (fl\<lparr> leaderElectionLeaseDuration := d \<rparr>)"
    "set_flag ''leader-elect-renew-deadline'' (DurationV d) fl
       = Some (fl\<lparr> leaderElectionRenewDeadline := d \<rparr>)"
    "set_flag ''leader-elect-retry-period'' (DurationV d) fl
       = Some (fl\<lparr> leaderElectionRetryPeriod := d \<rparr>)"
    by simp_all
  have m: "\<And>fl'. (cfg, opts, r) \<in> set (manager_calls (trace (main fl' e))) \<Longrightarrow>
        LeaderElection opts = enableLeaderElection fl'
        \<and> LeaseDuration opts = Some (leaderElectionLeaseDuration fl')
        \<and> RenewDeadline opts = Some (leaderElectionRenewDeadline fl')
        \<and> RetryPeriod opts = Some (leaderElectionRetryPeriod fl')"
    by (drule manager_calls_member) (simp add: manager_options_def)
  have n: "ret_GetConfigOrDie e \<noteq> None \<longrightarrow> manager_calls (trace (main fl e)) \<noteq> []"
    by (auto simp: manager_calls_main)
  have a: "run args e = Some out \<and> (cfg, opts, r) \<in> set (manager_calls (trace out)) \<longrightarrow>
        (\<exists>fl'. parse (go_flag_names e) args = Some fl'
           \<and> LeaderElection opts = enableLeaderElection fl'
           \<and> LeaseDuration opts = Some (leaderElectionLeaseDuration fl')
           \<and> RenewDeadline opts = Some (leaderElectionRenewDeadline fl')
           \<and> RetryPeriod opts = Some (leaderElectionRetryPeriod fl'))"
    using m by (auto simp: run_def)
  from m [of fl]
  have m': "(cfg, opts, r) \<in> set (manager_calls (trace (main fl e))) \<longrightarrow>
        LeaderElection opts = enableLeaderElection fl
        \<and> LeaseDuration opts = Some (leaderElectionLeaseDuration fl)
        \<and> RenewDeadline opts = Some (leaderElectionRenewDeadline fl)
        \<and> RetryPeriod opts = Some (leaderElectionRetryPeriod fl)"
    by (rule impI)
  from d s m' n a show ?thesis
    by (intro conjI)
qed

theorem leader_election_options_witness:
  "ret_GetConfigOrDie ok_env \<noteq> None
   \<and> (\<exists>cfg opts r. manager_calls (trace (main initFlags ok_env)) = [(cfg, opts, r)]
        \<and> LeaderElection opts = False
        \<and> LeaseDuration opts = Some 15000000000
        \<and> RenewDeadline opts = Some 10000000000
        \<and> RetryPeriod opts = Some 2000000000)
   \<and> parse (go_flag_names ok_env) lease_args = Some lease_flags
   \<and> (\<exists>out cfg opts r. run lease_args ok_env = Some out
        \<and> manager_calls (trace out) = [(cfg, opts, r)]
        \<and> LeaderElection opts = True
        \<and> LeaseDuration opts = Some 60000000000
        \<and> RenewDeadline opts = Some 40000000000
        \<and> RetryPeriod opts = Some 5000000000)"
proof -
  let ?o = "manager_options initFlags new_broadcaster"
  let ?o' = "manager_options lease_flags new_broadcaster"
  have c: "manager_calls (trace (main initFlags ok_env)) = [(''kubeconfig'', ?o, None)]"
    by (simp add: manager_calls_main ok_env_def)
  then have i: "(''kubeconfig'', ?o, None) \<in> set (manager_calls (trace (main initFlags ok_env)))"
    by simp
  have g: "ret_GetConfigOrDie ok_env \<noteq> None"
    by (simp add: ok_env_def)
  have w1: "LeaderElection ?o = False \<and> LeaseDuration ?o = Some 15000000000
      \<and> RenewDeadline ?o = Some 10000000000 \<and> RetryPeriod ?o = Some 2000000000"
    using leader_election_options [where cfg = "''kubeconfig''" and opts = ?o and r = None
        and fl = initFlags and e = ok_env and goflags = "[]" and b = True and d = 0
        and args = "[]" and out = "main initFlags ok_env"] i
    by (simp add: Second_def)
  have p: "parse (go_flag_names ok_env) lease_args = Some lease_flags"
    by (simp add: parse_def lease_args_def lease_flags_def ok_env_def flag_names_def)
  then have r: "run lease_args ok_env = Some (main lease_flags ok_env)"
    by (simp add: run_def)
  have c': "manager_calls (trace (main lease_flags ok_env)) = [(''kubeconfig'', ?o', None)]"
    by (simp add: manager_calls_main ok_env_def)
  then have i': "(''kubeconfig'', ?o', None)
      \<in> set (manager_calls (trace (main lease_flags ok_env)))"
    by simp
  have v: "enableLeaderElection lease_flags = True"
    "leaderElectionLeaseDuration lease_flags = 60000000000"
    "leaderElectionRenewDeadline lease_flags = 40000000000"
    "leaderElectionRetryPeriod lease_flags = 5000000000"
    by (simp_all add: lease_flags_def Second_def)
  have w2: "LeaderElection ?o' = True \<and> LeaseDuration ?o' = Some 60000000000
      \<and> RenewDeadline ?o' = Some 40000000000 \<and> RetryPeriod ?o' = Some 5000000000"
    using leader_election_options [where cfg = "''kubeconfig''" and opts = ?o' and r = None
        and fl = lease_flags and e = ok_env and goflags = "[]" and b = True and d = 0
        and args = lease_args and out = "main lease_flags ok_env"] r i' p v
    by simp
  from c w1 have e1: "\<exists>cfg opts r. manager_calls (trace (main initFlags ok_env)) = [(cfg, opts, r)]
        \<and> LeaderElection opts = False
        \<and> LeaseDuration opts = Some 15000000000
        \<and> RenewDeadline opts = Some 10000000000
        \<and> RetryPeriod opts = Some 2000000000"
    by blast
  from r c' w2 have e2: "\<exists>out cfg opts r. run lease_args ok_env = Some out
        \<and> manager_calls (trace out) = [(cfg, opts, r)]
        \<and> LeaderElection opts = True
        \<and> LeaseDuration opts = Some 60000000000
        \<and> RenewDeadline opts = Some 40000000000
        \<and> RetryPeriod opts = Some 5000000000"
    by blast
  from g e1 p e2 show ?thesis
    by (intro conjI)
qed

text \<open>
  Claim C10. In every call of \<open>ctrl.NewManager\<close>, for any arguments on the command
  line, the leader election identity is the string \<open>controller-leader-election-capg\<close>;
  the namespace is the value of the flag \<open>leader-election-namespace\<close>.
\<close>

theorem leader_election_id_fixed:
  "(run args e = Some out \<and> (cfg, opts, r) \<in> set (manager_calls (trace out)) \<longrightarrow>
      LeaderElectionID opts = ''controller-leader-election-capg'')
   \<and> ((cfg, opts, r) \<in> set (manager_calls (trace (main fl e))) \<longrightarrow>
      LeaderElectionID opts = ''controller-leader-election-capg''
      \<and> LeaderElectionNamespace opts = leaderElectionNamespace fl)
   \<and> set_flag ''leader-election-namespace'' (StringV s) fl
       = Some (fl\<lparr> leaderElectionNamespace := s \<rparr>)"
proof -
  have m: "\<And>fl'. (cfg, opts, r) \<in> set (manager_calls (trace (main fl' e))) \<Longrightarrow>
      LeaderElectionID opts = ''controller-leader-election-capg''
      \<and> LeaderElectionNamespace opts = leaderElectionNamespace fl'"
    by (drule manager_calls_member) (simp add: manager_options_def)
  have a: "run args e = Some out \<Longrightarrow> (cfg, opts, r) \<in> set (manager_calls (trace out)) \<Longrightarrow>
      LeaderElectionID opts = ''controller-leader-election-capg''"
    using m by (auto simp: run_def)
  have f: "set_flag ''leader-election-namespace'' (StringV s) fl
       = Some (fl\<lparr> leaderElectionNamespace := s \<rparr>)"
    by simp
  show ?thesis using m [of fl] a f by blast
qed

theorem leader_election_id_fixed_witness:
  "\<exists>out opts. run elect_args ok_env = Some out
     \<and> manager_calls (trace out) = [(''kubeconfig'', opts, None)]
     \<and> LeaderElection opts
     \<and> LeaderElectionID opts = ''controller-leader-election-capg''
     \<and> LeaderElectionNamespace opts = ''capg-system''"
proof -
  let ?o = "manager_options elect_flags new_broadcaster"
  have p: "parse (go_flag_names ok_env) elect_args = Some elect_flags"
    by (simp add: parse_def elect_args_def elect_flags_def)
  then have r: "run elect_args ok_env = Some (main elect_flags ok_env)"
    by (simp add: run_def)
  have c: "manager_calls (trace (main elect_flags ok_env)) = [(''kubeconfig'', ?o, None)]"
    by (simp add: manager_calls_main ok_env_def)
  then have i: "(''kubeconfig'', ?o, None) \<in> set (manager_calls (trace (main elect_flags ok_env)))"
    by simp
  have l: "LeaderElection ?o"
    by (simp add: manager_options_def elect_flags_def)
  have n: "leaderElectionNamespace elect_flags = ''capg-system''"
    by (simp add: elect_flags_def)
  have "LeaderElectionID ?o = ''controller-leader-election-capg''
      \<and> LeaderElectionNamespace ?o = ''capg-system''"
    using leader_election_id_fixed [of elect_args ok_env "main elect_flags ok_env"
        "''kubeconfig''" ?o None elect_flags] r i n
    by simp
  with r c l show ?thesis by blast
qed

subsection \<open>What the reconcilers receive\<close>

lemma reconciler_calls_member:
  "(k, r, co, res) \<in> set (reconciler_calls (trace (main fl e))) \<Longrightarrow>
     (k = GCPMachineReconciler \<and> r = machine_reconciler fl
        \<and> co = \<lparr> MaxConcurrentReconciles = gcpMachineConcurrency fl \<rparr>)
     \<or> (k = GCPClusterReconciler \<and> r = cluster_reconciler fl
        \<and> co = \<lparr> MaxConcurrentReconciles = gcpClusterConcurrency fl \<rparr>)"
  by (auto simp: reconciler_calls_main setup_reconcilers_reconciler_calls Let_def
      split: option.splits if_splits)

lemma reconciler_calls_both:
  "webhookPort fl = 0 \<Longrightarrow> readyz_calls (trace (main fl e)) \<noteq> [] \<Longrightarrow>
     map fst (reconciler_calls (trace (main fl e))) = [GCPMachineReconciler, GCPClusterReconciler]"
  by (auto simp: readyz_calls_main registered_reconcilers_main reconciler_calls_main
      registered_reconcilers_def setup_reconcilers_reconciler_calls Let_def
      split: if_splits option.splits)

text \<open>
  Claim C7. The flag \<open>reconcile-timeout\<close> defaults to 90 minutes, and every reconciler
  that main sets up carries the value of the flag as its \<open>ReconcileTimeout\<close>. In
  reconciler mode, a run that reaches the health checks has set up both reconcilers.
\<close>

theorem reconcile_timeout_passed:
  "reconcileTimeout initFlags = 90 * Minute
   \<and> set_flag ''reconcile-timeout'' (DurationV d) fl = Some (fl\<lparr> reconcileTimeout := d \<rparr>)
   \<and> ((k, r, co, res) \<in> set (reconciler_calls (trace (main fl e))) \<longrightarrow>
        ReconcileTimeout r = reconcileTimeout fl)
   \<and> (webhookPort fl = 0 \<and> readyz_calls (trace (main fl e)) \<noteq> [] \<longrightarrow>
        map fst (reconciler_calls (trace (main fl e)))
          = [GCPMachineReconciler, GCPClusterReconciler])"
proof -
  have d: "reconcileTimeout initFlags = 90 * Minute"
    by (simp add: initFlags_def DefaultLoopTimeout_def)
  have f: "set_flag ''reconcile-timeout'' (DurationV d) fl = Some (fl\<lparr> reconcileTimeout := d \<rparr>)"
    by simp
  have m: "(k, r, co, res) \<in> set (reconciler_calls (trace (main fl e))) \<Longrightarrow>
        ReconcileTimeout r = reconcileTimeout fl"
    by (drule reconciler_calls_member)
      (auto simp: machine_reconciler_def cluster_reconciler_def)
  show ?thesis using d f m reconciler_calls_both [of fl e] by blast
qed

theorem reconcile_timeout_passed_witness:
  "webhookPort reconciler_mode = 0
   \<and> readyz_calls (trace (main reconciler_mode ok_env)) \<noteq> []
   \<and> (\<exists>rm om rc oc.
        reconciler_calls (trace (main reconciler_mode ok_env))
          = [(GCPMachineReconciler, rm, om, None), (GCPClusterReconciler, rc, oc, None)]
        \<and> ReconcileTimeout rm = 5400000000000
        \<and> ReconcileTimeout rc = 5400000000000)"
proof -
  let ?tr = "trace (main reconciler_mode ok_env)"
  let ?rm = "machine_reconciler reconciler_mode"
  let ?rc = "cluster_reconciler reconciler_mode"
  let ?om = "\<lparr> MaxConcurrentReconciles = 10 \<rparr>"
  have h: "webhookPort reconciler_mode = 0" "readyz_calls ?tr \<noteq> []"
    by (simp_all add: run_defs)
  have c: "reconciler_calls ?tr
      = [(GCPMachineReconciler, ?rm, ?om, None), (GCPClusterReconciler, ?rc, ?om, None)]"
    by (simp add: run_defs)
  have t: "reconcileTimeout reconciler_mode = 5400000000000"
    by (simp add: reconciler_mode_def initFlags_def DefaultLoopTimeout_def Minute_def Second_def)
  have "ReconcileTimeout ?rm = 5400000000000 \<and> ReconcileTimeout ?rc = 5400000000000"
    using reconcile_timeout_passed [of 0 reconciler_mode GCPMachineReconciler ?rm ?om None ok_env]
      reconcile_timeout_passed [of 0 reconciler_mode GCPClusterReconciler ?rc ?om None ok_env]
      c t
    by simp
  with h c show ?thesis by blast
qed

text \<open>
  Claim C8. The flags \<open>gcpcluster-concurrency\<close> and \<open>gcpmachine-concurrency\<close> default
  to 10 and set their own variable. Every reconciler that main sets up gets the variable
  of its own kind as \<open>MaxConcurrentReconciles\<close>, and the same reconcile timeout and
  watch filter as the other. In reconciler mode, a run that reaches the health checks has
  set up both reconcilers.
\<close>

theorem per_kind_concurrency:
  "gcpClusterConcurrency initFlags = 10
   \<and> gcpMachineConcurrency initFlags = 10
   \<and> set_flag ''gcpcluster-concurrency'' (IntV n) fl = Some (fl\<lparr> gcpClusterConcurrency := n \<rparr>)
   \<and> set_flag ''gcpmachine-concurrency'' (IntV n) fl = Some (fl\<lparr> gcpMachineConcurrency := n \<rparr>)
   \<and> ((k, r, co, res) \<in> set (reconciler_calls (trace (main fl e))) \<longrightarrow>
        MaxConcurrentReconciles co
          = (case k of GCPMachineReconciler \<Rightarrow> gcpMachineConcurrency fl
                     | GCPClusterReconciler \<Rightarrow> gcpClusterConcurrency fl)
        \<and> ReconcileTimeout r = reconcileTimeout fl
        \<and> WatchFilterValue r = watchFilterValue fl)
   \<and> (webhookPort fl = 0 \<and> readyz_calls (trace (main fl e)) \<noteq> [] \<longrightarrow>
        map fst (reconciler_calls (trace (main fl e)))
          = [GCPMachineReconciler, GCPClusterReconciler])"
proof -
  have d: "gcpClusterConcurrency initFlags = 10" "gcpMachineConcurrency initFlags = 10"
    by (simp_all add: initFlags_def)
  have f: "set_flag ''gcpcluster-concurrency'' (IntV n) fl
        = Some (fl\<lparr> gcpClusterConcurrency := n \<rparr>)"
    "set_flag ''gcpmachine-concurrency'' (IntV n) fl = Some (fl\<lparr> gcpMachineConcurrency := n \<rparr>)"
    by simp_all
  have m: "(k, r, co, res) \<in> set (reconciler_calls (trace (main fl e))) \<Longrightarrow>
        MaxConcurrentReconciles co
          = (case k of GCPMachineReconciler \<Rightarrow> gcpMachineConcurrency fl
                     | GCPClusterReconciler \<Rightarrow> gcpClusterConcurrency fl)
        \<and> ReconcileTimeout r = reconcileTimeout fl
        \<and> WatchFilterValue r = watchFilterValue fl"
    by (drule reconciler_calls_member)
      (auto simp: machine_reconciler_def cluster_reconciler_def)
  show ?thesis using d f m reconciler_calls_both [of fl e] by blast
qed


theorem per_kind_concurrency_witness:
  "webhookPort tuned_mode = 0
   \<and> readyz_calls (trace (main tuned_mode ok_env)) \<noteq> []
   \<and> (\<exists>rm om rc oc.
        reconciler_calls (trace (main tuned_mode ok_env))
          = [(GCPMachineReconciler, rm, om, None), (GCPClusterReconciler, rc, oc, None)]
        \<and> MaxConcurrentReconciles om = 7
        \<and> MaxConcurrentReconciles oc = 3
        \<and> ReconcileTimeout rm = ReconcileTimeout rc
        \<and> WatchFilterValue rm = ''blue''
        \<and> WatchFilterValue rc = ''blue'')"
proof -
  let ?tr = "trace (main tuned_mode ok_env)"
  let ?rm = "machine_reconciler tuned_mode"
  let ?rc = "cluster_reconciler tuned_mode"
  let ?om = "\<lparr> MaxConcurrentReconciles = gcpMachineConcurrency tuned_mode \<rparr>"
  let ?oc = "\<lparr> MaxConcurrentReconciles = gcpClusterConcurrency tuned_mode \<rparr>"
  have h: "webhookPort tuned_mode = 0" "readyz_calls ?tr \<noteq> []"
    by (simp_all add: run_defs)
  have c: "reconciler_calls ?tr
      = [(GCPMachineReconciler, ?rm, ?om, None), (GCPClusterReconciler, ?rc, ?oc, None)]"
    by (simp add: run_defs)
  have v: "gcpMachineConcurrency tuned_mode = 7" "gcpClusterConcurrency tuned_mode = 3"
    "watchFilterValue tuned_mode = ''blue''"
    by (simp_all add: tuned_mode_def reconciler_mode_def)
  have "MaxConcurrentReconciles ?om = 7 \<and> MaxConcurrentReconciles ?oc = 3
      \<and> ReconcileTimeout ?rm = ReconcileTimeout ?rc
      \<and> WatchFilterValue ?rm = ''blue'' \<and> WatchFilterValue ?rc = ''blue''"
    using per_kind_concurrency [of 0 tuned_mode GCPMachineReconciler ?rm ?om None ok_env]
      per_kind_concurrency [of 0 tuned_mode GCPClusterReconciler ?rc ?oc None ok_env]
      c v
    by simp
  with h c show ?thesis by blast
qed

subsection \<open>The event broadcaster\<close>

text \<open>
  Claim C9. Whatever the flags and the environment, the first call main makes after the
  announcements creates a broadcaster with burst size 100. No manager is built before
  it, no other broadcaster is created after it, and every call of \<open>ctrl.NewManager\<close>
  is given that broadcaster; the call is made whenever the configuration was obtained.
\<close>

theorem broadcaster_burst_raised:
  "\<exists>rest. trace (main fl e) =
       announce fl
       @ NewBroadcaster (NewBroadcasterWithCorrelatorOptions \<lparr> BurstSize = 100 \<rparr>) # rest
     \<and> broadcasters_created (announce fl) = []
     \<and> manager_calls (announce fl) = []
     \<and> broadcasters_created rest = []
     \<and> (\<forall>cfg opts r. (cfg, opts, r) \<in> set (manager_calls rest) \<longrightarrow>
          EventBroadcaster opts = NewBroadcasterWithCorrelatorOptions \<lparr> BurstSize = 100 \<rparr>)
     \<and> (ret_GetConfigOrDie e \<noteq> None \<longrightarrow> manager_calls rest \<noteq> [])"
proof -
  let ?b = "NewBroadcasterWithCorrelatorOptions \<lparr> BurstSize = 100 \<rparr>"
  let ?rest = "drop (Suc (length (announce fl))) (trace (main fl e))"
  have t: "trace (main fl e) = announce fl @ NewBroadcaster ?b # ?rest"
    by (simp add: main_def Let_def new_broadcaster_def)
  have m: "manager_calls (trace (main fl e)) = manager_calls ?rest"
    by (subst t) simp
  have b: "broadcasters_created ?rest = []"
    by (simp add: main_def Let_def split: option.splits)
  have o: "\<forall>cfg opts r. (cfg, opts, r) \<in> set (manager_calls ?rest) \<longrightarrow>
          EventBroadcaster opts = ?b"
    unfolding m [symmetric]
    by (auto simp: manager_calls_main manager_options_def new_broadcaster_def
        split: option.splits)
  have n: "ret_GetConfigOrDie e \<noteq> None \<longrightarrow> manager_calls ?rest \<noteq> []"
    unfolding m [symmetric] by (auto simp: manager_calls_main)
  show ?thesis
    using t b o n announce_calls(1,2) [of fl] by blast
qed

theorem broadcaster_burst_raised_witness:
  "ret_GetConfigOrDie ok_env \<noteq> None
   \<and> (\<exists>rest cfg opts r. trace (main inverted_lease ok_env) =
         announce inverted_lease
         @ NewBroadcaster (NewBroadcasterWithCorrelatorOptions \<lparr> BurstSize = 100 \<rparr>) # rest
       \<and> (cfg, opts, r) \<in> set (manager_calls rest)
       \<and> EventBroadcaster opts = NewBroadcasterWithCorrelatorOptions \<lparr> BurstSize = 100 \<rparr>)"
proof -
  have g: "ret_GetConfigOrDie ok_env \<noteq> None"
    by (simp add: ok_env_def)
  obtain rest where r: "trace (main inverted_lease ok_env) =
       announce inverted_lease
       @ NewBroadcaster (NewBroadcasterWithCorrelatorOptions \<lparr> BurstSize = 100 \<rparr>) # rest"
    and o: "\<forall>cfg opts r. (cfg, opts, r) \<in> set (manager_calls rest) \<longrightarrow>
          EventBroadcaster opts = NewBroadcasterWithCorrelatorOptions \<lparr> BurstSize = 100 \<rparr>"
    and n: "manager_calls rest \<noteq> []"
    using broadcaster_burst_raised [of inverted_lease ok_env] g by blast
  from n obtain x where "x \<in> set (manager_calls rest)"
    by (cases "manager_calls rest") auto
  then obtain cfg opts res where i: "(cfg, opts, res) \<in> set (manager_calls rest)"
    by (metis prod_cases3)
  with o have "EventBroadcaster opts = NewBroadcasterWithCorrelatorOptions \<lparr> BurstSize = 100 \<rparr>"
    by blast
  with g r i show ?thesis by blast
qed

end
